theory Spec2Isabelle
  imports Complex_Main
begin

section \<open>JavaScript strings\<close>

text \<open>
  A JavaScript string is a sequence of UTF-16 code units. The Euro sign U+20AC and the
  German letters of the patterns lie outside ASCII, so a string is a list of code units
  and \<open>str\<close> embeds an ASCII literal.
\<close>

type_synonym jsstring = "nat list"

definition str :: "string \<Rightarrow> jsstring" where
  "str s = map of_char s"

definition euro :: nat where
  "euro = 8364"

text \<open>\<open>WhiteSpace\<close> and \<open>LineTerminator\<close>: what \<open>trim\<close> strips and \<open>\s\<close> matches.\<close>

definition isSpace :: "nat \<Rightarrow> bool" where
  "isSpace c = (c = 32 \<or> (9 \<le> c \<and> c \<le> 13) \<or> c = 160 \<or> c = 5760 \<or> (8192 \<le> c \<and> c \<le> 8202)
     \<or> c = 8232 \<or> c = 8233 \<or> c = 8239 \<or> c = 8287 \<or> c = 12288 \<or> c = 65279)"

definition isLineTerminator :: "nat \<Rightarrow> bool" where
  "isLineTerminator c = (c = 10 \<or> c = 13 \<or> c = 8232 \<or> c = 8233)"

definition isDigit :: "nat \<Rightarrow> bool" where
  "isDigit c = (48 \<le> c \<and> c \<le> 57)"

text \<open>
  The case pairs of ASCII and Latin-1, for the canonical forms that a pattern with the
  flag \<open>i\<close> compares and for \<open>toUpperCase\<close>, which the source applies to ASCII
  letters and digits only. The patterns of the source have ASCII and Latin-1 letters
  only, and no code unit beyond Latin-1 has the canonical form of one of them.
\<close>

definition upper :: "nat \<Rightarrow> nat" where
  "upper c = (if (97 \<le> c \<and> c \<le> 122) \<or> (224 \<le> c \<and> c \<le> 254 \<and> c \<noteq> 247) then c - 32 else c)"

definition lower :: "nat \<Rightarrow> nat" where
  "lower c = (if (65 \<le> c \<and> c \<le> 90) \<or> (192 \<le> c \<and> c \<le> 222 \<and> c \<noteq> 215) then c + 32 else c)"

text \<open>
  \<open>toLowerCase\<close>. Beyond Latin-1 five code units have a lower-case form with an ASCII
  or Latin-1 letter: U+0130, the capital I with a dot, becomes \<open>i\<close> and the combining
  dot U+0307; U+212A, the Kelvin sign, becomes \<open>k\<close>; U+212B, the Angstrom sign, becomes
  U+00E5; U+1E9E, the capital sharp s, becomes U+00DF; U+0178 becomes U+00FF. Every other
  code unit beyond Latin-1 is left as it is: its lower-case form has no ASCII or Latin-1
  code unit, so the keyword tests of the source, whose keywords are ASCII and Latin-1,
  are the same. Two product names that differ only in the case of a letter beyond
  Latin-1 are the same name for the source and two names here.
\<close>

definition lowerCase :: "nat \<Rightarrow> jsstring" where
  "lowerCase c =
     (if c = 304 then [105, 775]
      else if c = 8490 then [107]
      else if c = 8491 then [229]
      else if c = 7838 then [223]
      else if c = 376 then [255]
      else [lower c])"

definition toLowerCase :: "jsstring \<Rightarrow> jsstring" where
  "toLowerCase s = concat (map lowerCase s)"

definition toUpperCase :: "jsstring \<Rightarrow> jsstring" where
  "toUpperCase s = map upper s"

definition trimStart :: "jsstring \<Rightarrow> jsstring" where
  "trimStart s = dropWhile isSpace s"

definition trim :: "jsstring \<Rightarrow> jsstring" where
  "trim s = rev (dropWhile isSpace (rev (dropWhile isSpace s)))"

definition startsWith :: "jsstring \<Rightarrow> jsstring \<Rightarrow> bool" where
  "startsWith s p = (take (length p) s = p)"

fun js_includes :: "jsstring \<Rightarrow> jsstring \<Rightarrow> bool" where
  "js_includes [] sub = (sub = [])"
| "js_includes (c # cs) sub = (if startsWith (c # cs) sub then True else js_includes cs sub)"

text \<open>\<open>s.split(sep)\<close> for a separator of one code unit.\<close>

fun split_on :: "nat \<Rightarrow> jsstring \<Rightarrow> jsstring list" where
  "split_on sep [] = [[]]"
| "split_on sep (c # cs) =
     (if c = sep then [] # split_on sep cs
      else (case split_on sep cs of [] \<Rightarrow> [[c]] | piece # pieces \<Rightarrow> (c # piece) # pieces))"

text \<open>\<open>s.replace(a, b)\<close> with strings of one code unit: the first occurrence only.\<close>

fun replace_char :: "nat \<Rightarrow> nat \<Rightarrow> jsstring \<Rightarrow> jsstring" where
  "replace_char a b [] = []"
| "replace_char a b (c # cs) = (if c = a then b # cs else c # replace_char a b cs)"

fun join :: "jsstring \<Rightarrow> jsstring list \<Rightarrow> jsstring" where
  "join sep [] = []"
| "join sep [x] = x"
| "join sep (x # y # ys) = x @ sep @ join sep (y # ys)"

text \<open>Reading an array element or a destructured name that may be \<open>undefined\<close>.\<close>

definition nth_opt :: "'a list \<Rightarrow> nat \<Rightarrow> 'a option" where
  "nth_opt xs n = (if n < length xs then Some (xs ! n) else None)"

text \<open>Truthiness of a value that is a string, \<open>null\<close> or \<open>undefined\<close>.\<close>

definition truthy_str :: "jsstring option \<Rightarrow> bool" where
  "truthy_str v = (case v of None \<Rightarrow> False | Some s \<Rightarrow> s \<noteq> [])"

section \<open>JavaScript numbers\<close>

text \<open>
  A number is a double: a finite value, an infinity or NaN. A finite value is the
  rational it is equal to, and every operation rounds its exact result with
  \<open>double_of\<close>, to the nearest double with ties to the even mantissa, and to an
  infinity beyond the largest double. The sign of zero is outside this model: the source
  divides by numbers read from digits only, never by a negative zero.
\<close>

datatype jsnum = Num rat | PosInf | NegInf | NaN

definition pow2 :: "int \<Rightarrow> rat" where
  "pow2 k = (if 0 \<le> k then 2 ^ nat k else 1 / 2 ^ nat (- k))"

text \<open>The exponent \<open>e\<close> of a positive \<open>x\<close>: \<open>2 ^ e \<le> x < 2 ^ (e + 1)\<close>.\<close>

function exponent_up :: "rat \<Rightarrow> int" where
  "exponent_up x = (if x < 2 then 0 else 1 + exponent_up (x / 2))"
  by pat_completeness auto
termination
proof (relation "measure (\<lambda>x. nat \<lfloor>x\<rfloor>)")
  show "wf (measure (\<lambda>x::rat. nat \<lfloor>x\<rfloor>))" by simp
next
  fix x :: rat
  assume "\<not> x < 2"
  then have "x / 2 \<le> x - 1" by simp
  then have "\<lfloor>x / 2\<rfloor> \<le> \<lfloor>x - 1\<rfloor>" by (rule floor_mono)
  moreover have "2 \<le> \<lfloor>x\<rfloor>" using \<open>\<not> x < 2\<close> by (simp add: le_floor_iff)
  ultimately show "(x / 2, x) \<in> measure (\<lambda>x. nat \<lfloor>x\<rfloor>)" by simp
qed

function exponent_down :: "rat \<Rightarrow> int" where
  "exponent_down x = (if x \<le> 0 \<or> 1 \<le> x then 0 else exponent_down (2 * x) - 1)"
  by pat_completeness auto
termination
proof (relation "measure (\<lambda>x. nat \<lceil>1 / x\<rceil>)")
  show "wf (measure (\<lambda>x::rat. nat \<lceil>1 / x\<rceil>))" by simp
next
  fix x :: rat
  assume a: "\<not> (x \<le> 0 \<or> 1 \<le> x)"
  then have x: "0 < x" "x < 1" by simp_all
  then have y: "1 < 1 / x" by simp
  then have c: "2 \<le> \<lceil>1 / x\<rceil>" by (simp add: le_ceiling_iff)
  have "1 / (2 * x) = (1 / x) / 2" by simp
  also have "\<dots> \<le> of_int \<lceil>1 / x\<rceil> / 2" by (simp add: divide_right_mono)
  also have "\<dots> \<le> of_int (\<lceil>1 / x\<rceil> - 1)" using c by simp
  finally have "\<lceil>1 / (2 * x)\<rceil> \<le> \<lceil>1 / x\<rceil> - 1" by (simp only: ceiling_le_iff)
  then have "nat \<lceil>1 / (2 * x)\<rceil> < nat \<lceil>1 / x\<rceil>" using c by linarith
  then show "(2 * x, x) \<in> measure (\<lambda>x. nat \<lceil>1 / x\<rceil>)" by simp
qed

definition binade :: "rat \<Rightarrow> int" where
  "binade x = (if 1 \<le> x then exponent_up x else exponent_down x)"

text \<open>The integer nearest to \<open>x\<close>, the even one of two that are equally near.\<close>

definition half_even :: "rat \<Rightarrow> int" where
  "half_even x =
     (if x - of_int \<lfloor>x\<rfloor> < 1 / 2 then \<lfloor>x\<rfloor>
      else if 1 / 2 < x - of_int \<lfloor>x\<rfloor> then \<lfloor>x\<rfloor> + 1
      else if even \<lfloor>x\<rfloor> then \<lfloor>x\<rfloor> else \<lfloor>x\<rfloor> + 1)"

text \<open>
  The distance between the doubles around a positive \<open>x\<close>: 53 bits of mantissa, and
  the smallest exponent -1022.
\<close>

definition quantum :: "rat \<Rightarrow> rat" where
  "quantum x = pow2 (max (binade x) (- 1022) - 52)"

definition nearest :: "rat \<Rightarrow> rat" where
  "nearest x = of_int (half_even (x / quantum x)) * quantum x"

definition double_of :: "rat \<Rightarrow> jsnum" where
  "double_of x =
     (if x = 0 then Num 0
      else if 0 < x then (if nearest x < pow2 1024 then Num (nearest x) else PosInf)
      else (if nearest (- x) < pow2 1024 then Num (- nearest (- x)) else NegInf))"

definition truthy_num :: "jsnum \<Rightarrow> bool" where
  "truthy_num n = (n \<noteq> NaN \<and> n \<noteq> Num 0)"

text \<open>Truthiness of a value that is a number or \<open>null\<close>.\<close>

definition truthy :: "jsnum option \<Rightarrow> bool" where
  "truthy v = (case v of None \<Rightarrow> False | Some n \<Rightarrow> truthy_num n)"

text \<open>\<open>n > 0\<close>.\<close>

fun positive :: "jsnum \<Rightarrow> bool" where
  "positive (Num r) = (0 < r)"
| "positive PosInf = True"
| "positive NegInf = False"
| "positive NaN = False"

text \<open>\<open>a / b\<close>; a zero divisor gives an infinity or NaN, as in IEEE arithmetic.\<close>

fun jsdiv :: "jsnum \<Rightarrow> jsnum \<Rightarrow> jsnum" where
  "jsdiv (Num a) (Num b) =
     (if b = 0 then (if a = 0 then NaN else if 0 < a then PosInf else NegInf) else double_of (a / b))"
| "jsdiv (Num a) PosInf = Num 0"
| "jsdiv (Num a) NegInf = Num 0"
| "jsdiv PosInf (Num b) = (if 0 \<le> b then PosInf else NegInf)"
| "jsdiv NegInf (Num b) = (if 0 \<le> b then NegInf else PosInf)"
| "jsdiv PosInf PosInf = NaN"
| "jsdiv PosInf NegInf = NaN"
| "jsdiv NegInf PosInf = NaN"
| "jsdiv NegInf NegInf = NaN"
| "jsdiv NaN b = NaN"
| "jsdiv a NaN = NaN"

fun digits_value :: "nat \<Rightarrow> nat \<Rightarrow> jsstring \<Rightarrow> nat" where
  "digits_value radix acc [] = acc"
| "digits_value radix acc (c # cs) =
     digits_value radix
       (radix * acc + (if isDigit c then c - 48 else if 97 \<le> c then c - 87 else c - 55)) cs"

definition signed :: "bool \<Rightarrow> rat \<Rightarrow> rat" where
  "signed neg m = (if neg then - m else m)"

text \<open>The sign that may start a numeric string, and the string after it.\<close>

definition is_negative :: "jsstring \<Rightarrow> bool" where
  "is_negative s = (case s of [] \<Rightarrow> False | c # _ \<Rightarrow> c = 45)"

definition after_sign :: "jsstring \<Rightarrow> jsstring" where
  "after_sign s = (case s of [] \<Rightarrow> [] | c # cs \<Rightarrow> if c = 43 \<or> c = 45 then cs else c # cs)"

text \<open>The digits after a decimal point, and the string after them.\<close>

definition fraction_digits :: "jsstring \<Rightarrow> jsstring" where
  "fraction_digits s = (case s of [] \<Rightarrow> [] | c # cs \<Rightarrow> if c = 46 then takeWhile isDigit cs else [])"

definition after_fraction :: "jsstring \<Rightarrow> jsstring" where
  "after_fraction s = (case s of [] \<Rightarrow> [] | c # cs \<Rightarrow> if c = 46 then dropWhile isDigit cs else c # cs)"

text \<open>The exponent part \<open>e\<close>, optional sign, digits: applied to the mantissa.\<close>

definition scale :: "jsstring \<Rightarrow> rat \<Rightarrow> rat" where
  "scale s m =
     (case s of
        [] \<Rightarrow> m
      | c # cs \<Rightarrow>
          if (c = 101 \<or> c = 69) \<and> takeWhile isDigit (after_sign cs) \<noteq> []
          then (if is_negative cs
                then m / 10 ^ digits_value 10 0 (takeWhile isDigit (after_sign cs))
                else m * 10 ^ digits_value 10 0 (takeWhile isDigit (after_sign cs)))
          else m)"

definition mantissa :: "jsstring \<Rightarrow> jsstring \<Rightarrow> rat" where
  "mantissa ip fp = of_nat (digits_value 10 0 ip) + of_nat (digits_value 10 0 fp) / 10 ^ length fp"

text \<open>
  \<open>parseFloat\<close> on the string after leading white space and sign: the longest prefix
  that is a decimal literal (or \<open>Infinity\<close>) is read; NaN when there is none.
\<close>

definition parseUnsigned :: "bool \<Rightarrow> jsstring \<Rightarrow> jsnum" where
  "parseUnsigned neg u =
     (if startsWith u (str ''Infinity'') then (if neg then NegInf else PosInf)
      else if takeWhile isDigit u = [] \<and> fraction_digits (dropWhile isDigit u) = [] then NaN
      else double_of (signed neg
             (scale (after_fraction (dropWhile isDigit u))
                (mantissa (takeWhile isDigit u) (fraction_digits (dropWhile isDigit u))))))"

definition parseFloat :: "jsstring \<Rightarrow> jsnum" where
  "parseFloat s = parseUnsigned (is_negative (trimStart s)) (after_sign (trimStart s))"

text \<open>\<open>parseInt\<close> without a radix: decimal, or hexadecimal after \<open>0x\<close>.\<close>

definition isHexDigit :: "nat \<Rightarrow> bool" where
  "isHexDigit c = (isDigit c \<or> (97 \<le> c \<and> c \<le> 102) \<or> (65 \<le> c \<and> c \<le> 70))"

definition parseDigits :: "bool \<Rightarrow> nat \<Rightarrow> jsstring \<Rightarrow> jsnum" where
  "parseDigits neg radix ds =
     (if ds = [] then NaN else double_of (signed neg (of_nat (digits_value radix 0 ds))))"

definition parseIntUnsigned :: "bool \<Rightarrow> jsstring \<Rightarrow> jsnum" where
  "parseIntUnsigned neg u =
     (if startsWith u (str ''0x'') \<or> startsWith u (str ''0X'')
      then parseDigits neg 16 (takeWhile isHexDigit (drop 2 u))
      else parseDigits neg 10 (takeWhile isDigit u))"

definition parseInt :: "jsstring \<Rightarrow> jsnum" where
  "parseInt s = parseIntUnsigned (is_negative (trimStart s)) (after_sign (trimStart s))"

text \<open>\<open>n || 1\<close>.\<close>

definition or_one :: "jsnum \<Rightarrow> jsnum" where
  "or_one n = (if truthy_num n then n else Num 1)"

section \<open>Regular expressions\<close>

text \<open>
  The patterns of the source are sequences of quantified character classes, capture
  groups without nesting and the anchors \<open>^\<close> and \<open>$\<close>. A pattern is a list of such
  items, matched by backtracking in the order of the ECMAScript semantics: a greedy
  quantifier tries the longest repetition first, a lazy one the shortest.
\<close>

datatype atom = Lit nat | Range nat nat | Digit | Space

datatype cset = Any | In "atom list" | NotIn "atom list"

datatype item = Rep cset nat "nat option" bool | Open | Close | Bol | Eol

record regex =
  items_of :: "item list"
  ignoreCase :: bool
  multiline :: bool

text \<open>
  With the flag \<open>i\<close> two code units match when their canonical (upper case) forms
  agree; for a range this is the test of the code unit itself and of its two case forms.
\<close>

fun atom_match :: "bool \<Rightarrow> nat \<Rightarrow> atom \<Rightarrow> bool" where
  "atom_match ic c (Lit x) = (if ic then upper x = upper c else x = c)"
| "atom_match ic c (Range lo hi) =
     (if lo \<le> c \<and> c \<le> hi then True
      else if ic then (lo \<le> upper c \<and> upper c \<le> hi) \<or> (lo \<le> lower c \<and> lower c \<le> hi)
      else False)"
| "atom_match ic c Digit = isDigit c"
| "atom_match ic c Space = isSpace c"

fun cset_match :: "bool \<Rightarrow> cset \<Rightarrow> nat \<Rightarrow> bool" where
  "cset_match ic Any c = (\<not> isLineTerminator c)"
| "cset_match ic (In as) c = list_ex (atom_match ic c) as"
| "cset_match ic (NotIn as) c = (\<not> list_ex (atom_match ic c) as)"

text \<open>The repetition counts to try, in order, between the minimum and what the input allows.\<close>

definition counts :: "bool \<Rightarrow> nat \<Rightarrow> nat \<Rightarrow> nat list" where
  "counts lazy lo n = (if lazy then [lo..<Suc n] else rev [lo..<Suc n])"

definition bound :: "nat option \<Rightarrow> nat \<Rightarrow> nat" where
  "bound hi run = (case hi of None \<Rightarrow> run | Some h \<Rightarrow> min h run)"

definition prev_after :: "nat option \<Rightarrow> jsstring \<Rightarrow> nat \<Rightarrow> nat option" where
  "prev_after prev rest k = (if k = 0 then prev else Some (rest ! (k - 1)))"

definition grow :: "jsstring option \<Rightarrow> jsstring \<Rightarrow> jsstring option" where
  "grow cur s = (case cur of None \<Rightarrow> None | Some g \<Rightarrow> Some (g @ s))"

definition at_bol :: "bool \<Rightarrow> nat option \<Rightarrow> bool" where
  "at_bol ml prev = (case prev of None \<Rightarrow> True | Some c \<Rightarrow> ml \<and> isLineTerminator c)"

definition at_eol :: "bool \<Rightarrow> jsstring \<Rightarrow> bool" where
  "at_eol ml rest = (case rest of [] \<Rightarrow> True | c # _ \<Rightarrow> ml \<and> isLineTerminator c)"

definition close_group :: "jsstring option \<Rightarrow> jsstring" where
  "close_group cur = (case cur of Some g \<Rightarrow> g | None \<Rightarrow> [])"

text \<open>
  \<open>match_here ps ic ml prev rest caps cur\<close> matches the items \<open>ps\<close> at the start of
  \<open>rest\<close>; \<open>prev\<close> is the code unit before it, \<open>caps\<close> the groups closed so far and
  \<open>cur\<close> the text of the open group. The result is the groups and the input left.
\<close>

function match_here :: "item list \<Rightarrow> bool \<Rightarrow> bool \<Rightarrow> nat option \<Rightarrow> jsstring \<Rightarrow> jsstring list
    \<Rightarrow> jsstring option \<Rightarrow> (jsstring list \<times> jsstring) option"
  and try_counts :: "item list \<Rightarrow> bool \<Rightarrow> bool \<Rightarrow> nat option \<Rightarrow> jsstring \<Rightarrow> jsstring list
    \<Rightarrow> jsstring option \<Rightarrow> nat list \<Rightarrow> (jsstring list \<times> jsstring) option" where
  "match_here [] ic ml prev rest caps cur = Some (caps, rest)"
| "match_here (Open # ps) ic ml prev rest caps cur = match_here ps ic ml prev rest caps (Some [])"
| "match_here (Close # ps) ic ml prev rest caps cur =
     match_here ps ic ml prev rest (caps @ [close_group cur]) None"
| "match_here (Bol # ps) ic ml prev rest caps cur =
     (if at_bol ml prev then match_here ps ic ml prev rest caps cur else None)"
| "match_here (Eol # ps) ic ml prev rest caps cur =
     (if at_eol ml rest then match_here ps ic ml prev rest caps cur else None)"
| "match_here (Rep cs lo hi lazy # ps) ic ml prev rest caps cur =
     try_counts ps ic ml prev rest caps cur
       (counts lazy lo (bound hi (length (takeWhile (cset_match ic cs) rest))))"
| "try_counts ps ic ml prev rest caps cur [] = None"
| "try_counts ps ic ml prev rest caps cur (k # ks) =
     (case match_here ps ic ml (prev_after prev rest k) (drop k rest) caps (grow cur (take k rest)) of
        Some r \<Rightarrow> Some r
      | None \<Rightarrow> try_counts ps ic ml prev rest caps cur ks)"
  by pat_completeness auto
termination
  by (relation "inv_image (less_than <*lex*> less_than)
        (\<lambda>x. case x of Inl (ps, _) \<Rightarrow> (2 * length ps, 0)
                   | Inr (ps, _, _, _, _, _, _, ks) \<Rightarrow> (2 * length ps + 1, length ks))")
     auto

text \<open>The result of \<open>s.match(re)\<close>: \<open>index\<close>, \<open>match[0]\<close> and the groups \<open>match[1]\<close>, ...\<close>

record jsmatch =
  m_index :: nat
  m_whole :: jsstring
  m_groups :: "jsstring list"

fun search :: "item list \<Rightarrow> bool \<Rightarrow> bool \<Rightarrow> nat option \<Rightarrow> jsstring \<Rightarrow> nat \<Rightarrow> jsmatch option" where
  "search ps ic ml prev [] i =
     (case match_here ps ic ml prev [] [] None of
        Some r \<Rightarrow> Some \<lparr>m_index = i, m_whole = [], m_groups = fst r\<rparr>
      | None \<Rightarrow> None)"
| "search ps ic ml prev (c # cs) i =
     (case match_here ps ic ml prev (c # cs) [] None of
        Some r \<Rightarrow>
          Some \<lparr>m_index = i, m_whole = take (Suc (length cs) - length (snd r)) (c # cs),
                m_groups = fst r\<rparr>
      | None \<Rightarrow> search ps ic ml (Some c) cs (Suc i))"

definition js_match :: "jsstring \<Rightarrow> regex \<Rightarrow> jsmatch option" where
  "js_match s re = search (items_of re) (ignoreCase re) (multiline re) None s 0"

definition js_test :: "jsstring \<Rightarrow> regex \<Rightarrow> bool" where
  "js_test s re = (js_match s re \<noteq> None)"

text \<open>\<open>match[n]\<close> for \<open>n \<ge> 1\<close>; \<open>None\<close> is \<open>undefined\<close>.\<close>

definition grp :: "jsmatch \<Rightarrow> nat \<Rightarrow> jsstring option" where
  "grp m n = (if n = 0 then Some (m_whole m) else nth_opt (m_groups m) (n - 1))"

text \<open>\<open>match[n]\<close> where the pattern has the group: a string.\<close>

definition grp_str :: "jsmatch \<Rightarrow> nat \<Rightarrow> jsstring" where
  "grp_str m n = (case grp m n of Some g \<Rightarrow> g | None \<Rightarrow> [])"

text \<open>\<open>s.replace(re, r)\<close> for a pattern without the flag \<open>g\<close>: the first match.\<close>

definition js_replace :: "jsstring \<Rightarrow> regex \<Rightarrow> jsstring \<Rightarrow> jsstring" where
  "js_replace s re r =
     (case js_match s re of
        None \<Rightarrow> s
      | Some m \<Rightarrow> take (m_index m) s @ r @ drop (m_index m + length (m_whole m)) s)"

text \<open>
  \<open>s.replace(re, r)\<close> with the flag \<open>g\<close>: every match, left to right. After a match
  of \<open>k > 0\<close> code units the scan goes on behind it; an empty match is replaced and
  the scan moves one code unit on.
\<close>

definition consumed :: "jsstring \<Rightarrow> (jsstring list \<times> jsstring) \<Rightarrow> nat" where
  "consumed s r = length s - length (snd r)"

function replace_all :: "item list \<Rightarrow> bool \<Rightarrow> bool \<Rightarrow> jsstring \<Rightarrow> nat option \<Rightarrow> jsstring \<Rightarrow> jsstring" where
  "replace_all ps ic ml r prev [] =
     (case match_here ps ic ml prev [] [] None of Some m \<Rightarrow> r | None \<Rightarrow> [])"
| "replace_all ps ic ml r prev (c # cs) =
     (case match_here ps ic ml prev (c # cs) [] None of
        None \<Rightarrow> c # replace_all ps ic ml r (Some c) cs
      | Some m \<Rightarrow>
          if consumed (c # cs) m = 0 then r @ c # replace_all ps ic ml r (Some c) cs
          else r @ replace_all ps ic ml r (prev_after prev (c # cs) (consumed (c # cs) m))
                     (drop (consumed (c # cs) m) (c # cs)))"
  by pat_completeness auto
termination
  by (relation "measure (\<lambda>(ps, ic, ml, r, prev, s). length s)") auto

definition js_replace_all :: "jsstring \<Rightarrow> regex \<Rightarrow> jsstring \<Rightarrow> jsstring" where
  "js_replace_all s re r = replace_all (items_of re) (ignoreCase re) (multiline re) r None s"

text \<open>
  \<open>s.split(re)\<close> for a pattern that never matches the empty string: the pieces between
  the matches.
\<close>

function split_re :: "item list \<Rightarrow> bool \<Rightarrow> bool \<Rightarrow> nat option \<Rightarrow> jsstring \<Rightarrow> jsstring \<Rightarrow> jsstring list" where
  "split_re ps ic ml prev piece [] = [piece]"
| "split_re ps ic ml prev piece (c # cs) =
     (case match_here ps ic ml prev (c # cs) [] None of
        None \<Rightarrow> split_re ps ic ml (Some c) (piece @ [c]) cs
      | Some m \<Rightarrow>
          if consumed (c # cs) m = 0 then split_re ps ic ml (Some c) (piece @ [c]) cs
          else piece # split_re ps ic ml (prev_after prev (c # cs) (consumed (c # cs) m)) []
                         (drop (consumed (c # cs) m) (c # cs)))"
  by pat_completeness auto
termination
  by (relation "measure (\<lambda>(ps, ic, ml, prev, piece, s). length s)") auto

definition js_split :: "jsstring \<Rightarrow> regex \<Rightarrow> jsstring list" where
  "js_split s re = split_re (items_of re) (ignoreCase re) (multiline re) None [] s"

subsection \<open>Writing patterns\<close>

definition lc :: "char \<Rightarrow> atom" where
  "lc c = Lit (of_char c)"

definition rng :: "char \<Rightarrow> char \<Rightarrow> atom" where
  "rng a b = Range (of_char a) (of_char b)"

definition ch1 :: "atom list \<Rightarrow> item" where
  "ch1 as = Rep (In as) 1 (Some 1) False"

definition many0 :: "atom list \<Rightarrow> item" where
  "many0 as = Rep (In as) 0 None False"

definition many1 :: "atom list \<Rightarrow> item" where
  "many1 as = Rep (In as) 1 None False"

definition maybe :: "atom list \<Rightarrow> item" where
  "maybe as = Rep (In as) 0 (Some 1) False"

definition exactly :: "nat \<Rightarrow> atom list \<Rightarrow> item" where
  "exactly n as = Rep (In as) n (Some n) False"

text \<open>\<open>lit ''abc''\<close>: the code units of the literal, one after the other.\<close>

definition lit :: "string \<Rightarrow> item list" where
  "lit s = map (\<lambda>c. ch1 [lc c]) s"

text \<open>\<open>/.../\<close>, \<open>/.../i\<close> and \<open>/.../im\<close>.\<close>

definition re :: "item list \<Rightarrow> regex" where
  "re ps = \<lparr>items_of = ps, ignoreCase = False, multiline = False\<rparr>"

definition re_i :: "item list \<Rightarrow> regex" where
  "re_i ps = \<lparr>items_of = ps, ignoreCase = True, multiline = False\<rparr>"

definition re_im :: "item list \<Rightarrow> regex" where
  "re_im ps = \<lparr>items_of = ps, ignoreCase = True, multiline = True\<rparr>"

text \<open>\<open>[0-9]\<close>, \<open>[0-9,]\<close>, \<open>[0-9,\.]\<close> and the class of the Euro sign.\<close>

definition d09 :: "atom list" where
  "d09 = [rng CHR ''0'' CHR ''9'']"

definition d09c :: "atom list" where
  "d09c = [rng CHR ''0'' CHR ''9'', lc CHR '','']"

definition d09cp :: "atom list" where
  "d09cp = [rng CHR ''0'' CHR ''9'', lc CHR '','', lc CHR ''.'']"

definition eur :: "atom list" where
  "eur = [Lit euro, Lit euro]"

text \<open>\<open>([0-9]+[.,]?[0-9]*)\<close>\<close>

definition amount :: "item list" where
  "amount = [Open, many1 d09, maybe [lc CHR ''.'', lc CHR '',''], many0 d09, Close]"

section \<open>The extraction engine: OCRService.parseMarkdown\<close>

subsection \<open>The structured receipt\<close>

record line_item =
  product_name :: jsstring
  quantity :: jsnum
  unit_price :: "jsnum option"
  total_price :: "jsnum option"
  category :: "jsstring option"
  brand :: "jsstring option"
  item_code :: jsstring
  line_text :: jsstring
  matched :: bool

record metadata_rec =
  date :: "jsstring option"
  time :: "jsstring option"
  receipt_number :: "jsstring option"
  transaction_id :: "jsstring option"

record store_rec =
  name :: "jsstring option"
  address :: "jsstring option"
  phone :: "jsstring option"
  tax_id :: "jsstring option"
  store_chain :: "jsstring option"

record totals_rec =
  subtotal :: "jsnum option"
  vat_amount :: "jsnum option"
  vat_rate :: "jsnum option"
  total_amount :: "jsnum option"
  currency :: jsstring

record payment_rec =
  pay_method :: "jsstring option"
  amount_paid :: "jsnum option"
  change :: "jsnum option"
  card_type :: "jsstring option"
  card_number :: "jsstring option"

record cashier_rec =
  start_time :: "jsstring option"
  end_time :: "jsstring option"
  cashier_number :: "jsstring option"
  terminal_number :: "jsstring option"

record fiscal_rec =
  tse_signature :: "jsstring option"
  signature_counter :: "jsstring option"
  signature :: "jsstring option"
  signature_data :: "jsstring option"
  fiscal_data :: "jsstring option"

record loyalty_rec =
  program :: "jsstring option"
  points_earned :: "jsnum option"
  points_balance :: "jsnum option"

record receipt_rec =
  metadata :: metadata_rec
  store :: store_rec
  items :: "line_item list"
  totals :: totals_rec
  payment :: payment_rec
  cashier_info :: cashier_rec
  fiscal_info :: fiscal_rec
  loyalty :: loyalty_rec

record ocr_data_rec =
  raw_markdown :: jsstring
  confidence_score :: "jsnum option"
  processing_time :: "jsnum option"

record processing_info_rec =
  timestamp :: jsstring
  version :: jsstring
  ocr_model :: jsstring
  parser_version :: jsstring

record parse_result =
  receipt :: receipt_rec
  ocr_data :: ocr_data_rec
  processing_info :: processing_info_rec

subsection \<open>Helpers of the class\<close>

text \<open>\<open>keywords.some(k => lowerLine.includes(k))\<close>\<close>

fun some_included :: "jsstring \<Rightarrow> string list \<Rightarrow> bool" where
  "some_included s [] = False"
| "some_included s (k # ks) = (if js_includes s (str k) then True else some_included s ks)"

definition isItemsSection :: "jsstring \<Rightarrow> bool" where
  "isItemsSection line =
     some_included (toLowerCase line) [''purchase items'', ''items'', ''artikel'', ''produkte'', ''waren'']"

definition isHeaderOrTotal :: "jsstring \<Rightarrow> bool" where
  "isHeaderOrTotal line =
     some_included (toLowerCase line)
       [''total'', ''summe'', ''gesamt'', ''kasse'', ''kassierer'', ''bon'', ''receipt'', ''datum'',
        ''date'', ''payment'', ''steuer'', ''mwst'']"

definition isNotAProduct :: "jsstring \<Rightarrow> bool" where
  "isNotAProduct txt =
     some_included (toLowerCase txt)
       [''total'', ''summe'', ''sum'', ''payment'', ''cash'', ''card'', ''change'', ''rueckgeld'',
        ''tax'', ''vat'', ''mwst'', ''discount'', ''date'', ''time'', ''store'', ''address'',
        ''phone'', ''website'', ''thank'', ''danke'', ''receipt'', ''bon'', ''kas'', ''terminal'',
        ''steuer'', ''fiscal'', ''loyalty'', ''treue'', ''points'', ''eur'', ''euro'', ''amount'',
        ''method'', ''eft'', ''credit'', ''debit'', ''change'', ''cashier'', ''register'']"

text \<open>\<open>/[\<euro>\<euro>\s]/g\<close>\<close>

definition re_currency_space :: regex where
  "re_currency_space = re [ch1 [Lit euro, Lit euro, Space]]"

text \<open>
  \<open>parsePrice\<close>: \<open>None\<close> is \<open>null\<close>. The argument is a string, or \<open>undefined\<close> where
  the caller passes a group or an array element that does not exist.
\<close>

definition parsePrice :: "jsstring option \<Rightarrow> jsnum option" where
  "parsePrice priceStr =
     (case priceStr of
        None \<Rightarrow> None
      | Some s \<Rightarrow>
          if s = [] then None
          else (let price = parseFloat (replace_char 44 46 (js_replace_all s re_currency_space []))
                in if price = NaN then None else Some price))"

text \<open>\<open>/^([A-Z]{2,4})\s/\<close> and \<open>/^([A-Za-z]+)\s/\<close>\<close>

definition re_brand_caps :: regex where
  "re_brand_caps = re [Bol, Open, Rep (In [rng CHR ''A'' CHR ''Z'']) 2 (Some 4) False, Close, ch1 [Space]]"

definition re_brand_word :: regex where
  "re_brand_word = re [Bol, Open, many1 [rng CHR ''A'' CHR ''Z'', rng CHR ''a'' CHR ''z''], Close, ch1 [Space]]"

text \<open>The loop \<open>for (const pattern of patterns) { match = s.match(pattern); if (match) return match[1] }\<close>.\<close>

fun first_group :: "jsstring \<Rightarrow> regex list \<Rightarrow> jsstring option" where
  "first_group s [] = None"
| "first_group s (p # ps) = (case js_match s p of Some m \<Rightarrow> grp m 1 | None \<Rightarrow> first_group s ps)"

definition extractBrand :: "jsstring \<Rightarrow> jsstring option" where
  "extractBrand productName = first_group productName [re_brand_caps, re_brand_word]"

text \<open>\<open>/[^A-Za-z0-9]/g\<close>\<close>

definition re_not_alnum :: regex where
  "re_not_alnum =
     re [Rep (NotIn [rng CHR ''A'' CHR ''Z'', rng CHR ''a'' CHR ''z'', rng CHR ''0'' CHR ''9'']) 1 (Some 1) False]"

text \<open>
  \<open>generateItemCode\<close> reads \<open>Math.random()\<close>. The draws of one run are the sequence
  \<open>rnd\<close>: \<open>rnd k\<close> is the text \<open>Math.random().toString(36).substring(2, 6).toUpperCase()\<close>
  of the draw number \<open>k\<close>. Every call of \<open>generateItemCode\<close> builds exactly one item,
  so the number of the draw is the number of items built before it.
\<close>

definition generateItemCode :: "(nat \<Rightarrow> jsstring) \<Rightarrow> nat \<Rightarrow> jsstring \<Rightarrow> jsstring" where
  "generateItemCode rnd k productName =
     take 8 (toUpperCase (js_replace_all productName re_not_alnum [])) @ rnd k"

subsection \<open>Line fields: dates and totals\<close>

text \<open>
  \<open>/(\d{4}-\d{2}-\d{2})/\<close>, \<open>/(\d{2}\.\d{2}\.\d{4})/\<close>, \<open>/(\d{2}\/\d{2}\/\d{4})/\<close>,
  \<open>/dat\.\s*(\d{2}\.\d{2}\.\d{4})/i\<close>, \<open>/date:\s*(\d{2}\.\d{2}\.\d{4})/i\<close>
\<close>

definition dmy :: "char \<Rightarrow> item list" where
  "dmy sep = [Open, exactly 2 [Digit], ch1 [lc sep], exactly 2 [Digit], ch1 [lc sep], exactly 4 [Digit], Close]"

definition datePatterns :: "regex list" where
  "datePatterns =
     [re [Open, exactly 4 [Digit], ch1 [lc CHR ''-''], exactly 2 [Digit], ch1 [lc CHR ''-''], exactly 2 [Digit], Close],
      re (dmy CHR ''.''),
      re (dmy CHR ''/''),
      re_i (lit ''dat.'' @ [many0 [Space]] @ dmy CHR ''.''),
      re_i (lit ''date:'' @ [many0 [Space]] @ dmy CHR ''.'')]"

definition extractDate :: "jsstring \<Rightarrow> jsstring option" where
  "extractDate line = first_group line datePatterns"

text \<open>
  The loop of \<open>extractTotal\<close> and of the totals of \<open>extractPatternData\<close>: the first
  pattern whose group parses to a truthy amount greater than 0.
\<close>

definition accept_amount :: "jsnum option \<Rightarrow> bool" where
  "accept_amount a = (case a of None \<Rightarrow> False | Some n \<Rightarrow> truthy_num n \<and> positive n)"

fun first_amount :: "jsstring \<Rightarrow> regex list \<Rightarrow> jsnum option" where
  "first_amount s [] = None"
| "first_amount s (p # ps) =
     (case js_match s p of
        Some m \<Rightarrow> if accept_amount (parsePrice (grp m 1)) then parsePrice (grp m 1) else first_amount s ps
      | None \<Rightarrow> first_amount s ps)"

text \<open>
  \<open>/total[:\s]*[\<euro>\<euro>]?\s*([0-9]+[.,]?[0-9]*)/i\<close>, the same for \<open>summe\<close> and \<open>gesamt\<close>,
  \<open>/[\<euro>\<euro>]\s*([0-9]+[.,]?[0-9]*)\s*$/i\<close>, \<open>/([0-9]+[.,]?[0-9]*)\s*[\<euro>\<euro>]\s*$/i\<close>
\<close>

definition labelled_total :: "string \<Rightarrow> regex" where
  "labelled_total label =
     re_i (lit label @ [many0 [lc CHR '':'', Space], maybe eur, many0 [Space]] @ amount)"

definition totalPatterns :: "regex list" where
  "totalPatterns =
     [labelled_total ''total'', labelled_total ''summe'', labelled_total ''gesamt'',
      re_i ([ch1 eur, many0 [Space]] @ amount @ [many0 [Space], Eol]),
      re_i (amount @ [many0 [Space], ch1 eur, many0 [Space], Eol])]"

definition extractTotal :: "jsstring \<Rightarrow> jsnum option" where
  "extractTotal line = first_amount line totalPatterns"

subsection \<open>Line fields: one function for each group of the record\<close>

text \<open>\<open>/(\d{2}:\d{2})/\<close>\<close>

definition re_time :: regex where
  "re_time = re [Open, exactly 2 [Digit], ch1 [lc CHR '':''], exactly 2 [Digit], Close]"

definition extractMetadata :: "jsstring \<Rightarrow> metadata_rec \<Rightarrow> metadata_rec" where
  "extractMetadata line md0 =
     (let md1 = (if \<not> truthy_str (date md0)
                 then (if truthy_str (extractDate line) then md0\<lparr>date := extractDate line\<rparr> else md0)
                 else md0)
      in if \<not> truthy_str (time md1)
         then (case js_match line re_time of
                 Some timeMatch \<Rightarrow> md1\<lparr>time := grp timeMatch 1\<rparr>
               | None \<Rightarrow> md1)
         else md1)"

text \<open>The table \<open>storePatterns\<close>: pattern (with the flag \<open>i\<close>), name, chain.\<close>

definition storePatterns :: "(regex \<times> string \<times> string) list" where
  "storePatterns =
     [(re_i (lit ''EDEKA''), ''EDEKA'', ''EDEKA''),
      (re_i (lit ''Kaufland''), ''Kaufland'', ''Kaufland''),
      (re_i (lit ''dm-drogerie''), ''dm-drogerie markt'', ''dm-drogerie''),
      (re_i (lit ''real-''), ''real'', ''real''),
      (re_i (lit ''Kaisers Tengelmann''), ''Kaisers Tengelmann'', ''Kaisers''),
      (re_i (lit ''Rewe''), ''REWE'', ''REWE''),
      (re_i (lit ''Lidl''), ''Lidl'', ''Lidl''),
      (re_i (lit ''Aldi''), ''Aldi'', ''Aldi'')]"

text \<open>\<open>/\*\*/g\<close>, \<open>/^\*\s*/\<close> and \<open>/^\*?\s*Store Name:\s*/i\<close> with its two siblings\<close>

definition re_stars :: regex where
  "re_stars = re (lit ''**'')"

definition re_bullet :: regex where
  "re_bullet = re ([Bol] @ lit ''*'' @ [many0 [Space]])"

definition re_prefix :: "string \<Rightarrow> regex" where
  "re_prefix label = re_i ([Bol, maybe [lc CHR ''*''], many0 [Space]] @ lit label @ [many0 [Space]])"

definition cleanStoreName :: "jsstring \<Rightarrow> jsstring" where
  "cleanStoreName line =
     js_replace
       (js_replace
          (js_replace (trim (js_replace (js_replace_all line re_stars []) re_bullet []))
             (re_prefix ''Store Name:'') [])
          (re_prefix ''Name:'') [])
       (re_prefix ''Company Name:'') []"

text \<open>The loop over \<open>storePatterns\<close>; it stops at the first pattern that sets the name.\<close>

fun storeLoop :: "jsstring \<Rightarrow> (regex \<times> string \<times> string) list \<Rightarrow> store_rec \<Rightarrow> store_rec" where
  "storeLoop line [] st = st"
| "storeLoop line ((pattern, nm, chain) # ps) st =
     (if js_test line pattern
      then (if js_includes (cleanStoreName line) (str nm)
            then st\<lparr>name := Some (str nm), store_chain := Some (str chain)\<rparr>
            else storeLoop line ps st)
      else storeLoop line ps st)"

text \<open>
  \<open>/\d{5}\s+[A-Za-z\<dots>\s-]+$/\<close> (the class also has the code units 228, 246, 252 and 223,
  the German small umlauts and sharp s), \<open>/tel[.:]\s*\d+[\/\s-]?\d+/i\<close> and
  \<open>/steuer-nr[.:]\s*(\d+\/\d+)/i\<close>
\<close>

definition re_address :: regex where
  "re_address =
     re [exactly 5 [Digit], many1 [Space],
         many1 [rng CHR ''A'' CHR ''Z'', rng CHR ''a'' CHR ''z'', Lit 228, Lit 246, Lit 252, Lit 223,
                Space, lc CHR ''-''],
         Eol]"

definition re_phone :: regex where
  "re_phone =
     re_i (lit ''tel'' @ [ch1 [lc CHR ''.'', lc CHR '':''], many0 [Space], many1 [Digit],
                         maybe [lc CHR ''/'', Space, lc CHR ''-''], many1 [Digit]])"

definition re_tax_id :: regex where
  "re_tax_id =
     re_i (lit ''steuer-nr'' @ [ch1 [lc CHR ''.'', lc CHR '':''], many0 [Space],
                               Open, many1 [Digit], ch1 [lc CHR ''/''], many1 [Digit], Close])"

definition extractStoreInfo :: "jsstring \<Rightarrow> store_rec \<Rightarrow> store_rec" where
  "extractStoreInfo line st0 =
     (let st1 = (if \<not> truthy_str (name st0) then storeLoop line storePatterns st0 else st0);
          st2 = (if \<not> truthy_str (address st1)
                 then (if js_test line re_address then st1\<lparr>address := Some (trim line)\<rparr> else st1)
                 else st1);
          st3 = (if \<not> truthy_str (phone st2)
                 then (if js_test line re_phone then st2\<lparr>phone := Some (trim line)\<rparr> else st2)
                 else st2)
      in if \<not> truthy_str (tax_id st3)
         then (case js_match line re_tax_id of
                 Some m \<Rightarrow> st3\<lparr>tax_id := grp m 1\<rparr>
               | None \<Rightarrow> st3)
         else st3)"

text \<open>\<open>/mwst[:\s]*([0-9,]+)/i\<close> and \<open>/netto[:\s]*([0-9,]+)/i\<close>\<close>

definition labelled_number :: "string \<Rightarrow> regex" where
  "labelled_number label = re_i (lit label @ [many0 [lc CHR '':'', Space], Open, many1 d09c, Close])"

definition extractTotals :: "jsstring \<Rightarrow> totals_rec \<Rightarrow> totals_rec" where
  "extractTotals line t0 =
     (let t1 = (if \<not> truthy (total_amount t0)
                then (if truthy (extractTotal line) then t0\<lparr>total_amount := extractTotal line\<rparr> else t0)
                else t0);
          t2 = (if \<not> truthy (vat_amount t1)
                then (case js_match line (labelled_number ''mwst'') of
                        Some vatMatch \<Rightarrow> t1\<lparr>vat_amount := parsePrice (grp vatMatch 1)\<rparr>
                      | None \<Rightarrow> t1)
                else t1)
      in if \<not> truthy (subtotal t2)
         then (case js_match line (labelled_number ''netto'') of
                 Some subtotalMatch \<Rightarrow> t2\<lparr>subtotal := parsePrice (grp subtotalMatch 1)\<rparr>
               | None \<Rightarrow> t2)
         else t2)"

text \<open>\<open>/visa|ec|bar|kartenzahlung/i\<close>, used as a test, and \<open>/([0-9,]+)\s*[\<euro>\<euro>]\s*$/\<close>\<close>

definition paymentWords :: "regex list" where
  "paymentWords = [re_i (lit ''visa''), re_i (lit ''ec''), re_i (lit ''bar''), re_i (lit ''kartenzahlung'')]"

fun some_test :: "jsstring \<Rightarrow> regex list \<Rightarrow> bool" where
  "some_test s [] = False"
| "some_test s (p # ps) = (if js_test s p then True else some_test s ps)"

definition re_paid :: regex where
  "re_paid = re [Open, many1 d09c, Close, many0 [Space], ch1 eur, many0 [Space], Eol]"

definition extractPaymentInfo :: "jsstring \<Rightarrow> payment_rec \<Rightarrow> payment_rec" where
  "extractPaymentInfo line p0 =
     (let p1 = (if \<not> truthy_str (pay_method p0)
                then (if some_test line paymentWords
                      then (if js_includes line (str ''VISA'')
                            then p0\<lparr>pay_method := Some (trim line), card_type := Some (str ''VISA'')\<rparr>
                            else if js_includes line (str ''EC'')
                            then p0\<lparr>pay_method := Some (trim line), card_type := Some (str ''EC'')\<rparr>
                            else p0\<lparr>pay_method := Some (trim line)\<rparr>)
                      else p0)
                else p0)
      in if \<not> truthy (amount_paid p1)
         then (case js_match line re_paid of
                 Some paidMatch \<Rightarrow> p1\<lparr>amount_paid := parsePrice (grp paidMatch 1)\<rparr>
               | None \<Rightarrow> p1)
         else p1)"

text \<open>
  \<open>/start[:\s]*(\d{4}-\d{2}-\d{2}\s+\d{2}:\d{2}:\d{2})/i\<close>, the same for \<open>ende\<close>,
  \<open>/sn-kasse[:\s]*([A-Z0-9]+)/i\<close> and \<open>/ta-nummer[:\s]*(\d+)/i\<close>
\<close>

definition stamp :: "item list" where
  "stamp =
     [Open, exactly 4 [Digit], ch1 [lc CHR ''-''], exactly 2 [Digit], ch1 [lc CHR ''-''], exactly 2 [Digit],
      many1 [Space], exactly 2 [Digit], ch1 [lc CHR '':''], exactly 2 [Digit], ch1 [lc CHR '':''],
      exactly 2 [Digit], Close]"

definition labelled_stamp :: "string \<Rightarrow> regex" where
  "labelled_stamp label = re_i (lit label @ [many0 [lc CHR '':'', Space]] @ stamp)"

definition labelled :: "string \<Rightarrow> atom list \<Rightarrow> regex" where
  "labelled label as = re_i (lit label @ [many0 [lc CHR '':'', Space], Open, many1 as, Close])"

definition extractCashierInfo :: "jsstring \<Rightarrow> cashier_rec \<Rightarrow> cashier_rec" where
  "extractCashierInfo line c0 =
     (let c1 = (if \<not> truthy_str (start_time c0)
                then (case js_match line (labelled_stamp ''start'') of
                        Some m \<Rightarrow> c0\<lparr>start_time := grp m 1\<rparr> | None \<Rightarrow> c0)
                else c0);
          c2 = (if \<not> truthy_str (end_time c1)
                then (case js_match line (labelled_stamp ''ende'') of
                        Some m \<Rightarrow> c1\<lparr>end_time := grp m 1\<rparr> | None \<Rightarrow> c1)
                else c1);
          c3 = (if \<not> truthy_str (cashier_number c2)
                then (case js_match line (labelled ''sn-kasse'' [rng CHR ''A'' CHR ''Z'', rng CHR ''0'' CHR ''9'']) of
                        Some m \<Rightarrow> c2\<lparr>cashier_number := grp m 1\<rparr> | None \<Rightarrow> c2)
                else c2)
      in if \<not> truthy_str (terminal_number c3)
         then (case js_match line (labelled ''ta-nummer'' [Digit]) of
                 Some m \<Rightarrow> c3\<lparr>terminal_number := grp m 1\<rparr> | None \<Rightarrow> c3)
         else c3)"

text \<open>
  \<open>/sn-tse[:\s]*([a-f0-9]+)/i\<close>, \<open>/signaturz\<dots>hler[:\s]*(\d+)/i\<close> (the letter left
  out is the code unit 228) and \<open>/signatur[:\s]*([A-Z0-9\/]+)/i\<close>
\<close>

definition re_signature_counter :: regex where
  "re_signature_counter =
     re_i (lit ''signaturz'' @ [ch1 [Lit 228]] @ lit ''hler'' @
           [many0 [lc CHR '':'', Space], Open, many1 [Digit], Close])"

definition extractFiscalInfo :: "jsstring \<Rightarrow> fiscal_rec \<Rightarrow> fiscal_rec" where
  "extractFiscalInfo line f0 =
     (let f1 = (if \<not> truthy_str (tse_signature f0)
                then (case js_match line (labelled ''sn-tse'' [rng CHR ''a'' CHR ''f'', rng CHR ''0'' CHR ''9'']) of
                        Some m \<Rightarrow> f0\<lparr>tse_signature := grp m 1\<rparr> | None \<Rightarrow> f0)
                else f0);
          f2 = (if \<not> truthy_str (signature_counter f1)
                then (case js_match line re_signature_counter of
                        Some m \<Rightarrow> f1\<lparr>signature_counter := grp m 1\<rparr> | None \<Rightarrow> f1)
                else f1)
      in if \<not> truthy_str (signature f2)
         then (case js_match line
                      (labelled ''signatur'' [rng CHR ''A'' CHR ''Z'', rng CHR ''0'' CHR ''9'', lc CHR ''/'']) of
                 Some m \<Rightarrow> f2\<lparr>signature := grp m 1\<rparr> | None \<Rightarrow> f2)
         else f2)"

text \<open>\<open>/(\d+)\s+payback\s+punkte/i\<close>\<close>

definition re_payback :: regex where
  "re_payback =
     re_i ([Open, many1 [Digit], Close, many1 [Space]] @ lit ''payback'' @ [many1 [Space]] @ lit ''punkte'')"

definition extractLoyaltyInfo :: "jsstring \<Rightarrow> loyalty_rec \<Rightarrow> loyalty_rec" where
  "extractLoyaltyInfo line l0 =
     (if \<not> truthy (points_earned l0)
      then (case js_match line re_payback of
              Some m \<Rightarrow> l0\<lparr>points_earned := Some (parseInt (grp_str m 1)), program := Some (str ''PAYBACK'')\<rparr>
            | None \<Rightarrow> l0)
      else l0)"

subsection \<open>Items\<close>

text \<open>
  The object literal that every strategy but \<open>extractItem\<close> builds:
  \<open>unit_price: price ? price / quantity : null, total_price: price || null\<close>, with
  \<open>category: null\<close>, the brand, a generated code and \<open>matched: false\<close>.
\<close>

definition newItem :: "(nat \<Rightarrow> jsstring) \<Rightarrow> nat \<Rightarrow> jsstring \<Rightarrow> jsnum \<Rightarrow> jsnum option \<Rightarrow> jsstring \<Rightarrow> line_item" where
  "newItem rnd k productName qty price lineText =
     \<lparr>product_name = productName,
      quantity = qty,
      unit_price = (case price of
                      None \<Rightarrow> None
                    | Some p \<Rightarrow> if truthy_num p then Some (jsdiv p qty) else None),
      total_price = (if truthy price then price else None),
      category = None,
      brand = extractBrand productName,
      item_code = generateItemCode rnd k productName,
      line_text = lineText,
      matched = False\<rparr>"

text \<open>
  \<open>/(.+?)\s+(\d+)x?\s*[\<euro>\<euro>]\s*([0-9]+[.,]?[0-9]*)/i\<close>,
  \<open>/(.+?)\s+[\<euro>\<euro>]\s*([0-9]+[.,]?[0-9]*)/i\<close>,
  \<open>/(.+?)\s+([0-9]+[.,]?[0-9]*)\s*[\<euro>\<euro>]/i\<close>
\<close>

definition lazy_name :: "item list" where
  "lazy_name = [Open, Rep Any 1 None True, Close]"

definition itemPatterns :: "regex list" where
  "itemPatterns =
     [re_i (lazy_name @ [many1 [Space], Open, many1 [Digit], Close, maybe [lc CHR ''x''], many0 [Space],
                         ch1 eur, many0 [Space]] @ amount),
      re_i (lazy_name @ [many1 [Space], ch1 eur, many0 [Space]] @ amount),
      re_i (lazy_name @ [many1 [Space]] @ amount @ [many0 [Space], ch1 eur])]"

text \<open>
  The body of the loop of \<open>extractItem\<close> for a pattern that matched:
  \<open>quantity = match[2] ? parseInt(match[2]) : 1\<close> and
  \<open>price = parsePrice(match[3] ? match[3] : match[2])\<close>.
\<close>

definition matchedItem :: "(nat \<Rightarrow> jsstring) \<Rightarrow> nat \<Rightarrow> jsstring \<Rightarrow> jsmatch \<Rightarrow> line_item option" where
  "matchedItem rnd k line m =
     (case parsePrice (if truthy_str (grp m 3) then grp m 3 else grp m 2) of
        None \<Rightarrow> None
      | Some price \<Rightarrow>
          if trim (grp_str m 1) \<noteq> [] \<and> truthy_num price \<and> positive price
          then Some \<lparr>product_name = trim (grp_str m 1),
                      quantity = (if truthy_str (grp m 2) then parseInt (grp_str m 2) else Num 1),
                      unit_price = Some (jsdiv price
                                     (if truthy_str (grp m 2) then parseInt (grp_str m 2) else Num 1)),
                      total_price = Some price,
                      category = None,
                      brand = extractBrand (trim (grp_str m 1)),
                      item_code = generateItemCode rnd k (trim (grp_str m 1)),
                      line_text = line,
                      matched = False\<rparr>
          else None)"

fun firstItem :: "(nat \<Rightarrow> jsstring) \<Rightarrow> nat \<Rightarrow> jsstring \<Rightarrow> regex list \<Rightarrow> line_item option" where
  "firstItem rnd k line [] = None"
| "firstItem rnd k line (p # ps) =
     (case js_match line p of
        None \<Rightarrow> firstItem rnd k line ps
      | Some m \<Rightarrow>
          (case matchedItem rnd k line m of
             Some it \<Rightarrow> Some it
           | None \<Rightarrow> firstItem rnd k line ps))"

definition extractItem :: "(nat \<Rightarrow> jsstring) \<Rightarrow> nat \<Rightarrow> jsstring \<Rightarrow> line_item option" where
  "extractItem rnd k line = (if isHeaderOrTotal line then None else firstItem rnd k line itemPatterns)"

subsection \<open>extractLineData\<close>

definition lineItem :: "(nat \<Rightarrow> jsstring) \<Rightarrow> jsstring \<Rightarrow> receipt_rec \<Rightarrow> receipt_rec" where
  "lineItem rnd trimmedLine r =
     (if length (items r) = 0
      then (case extractItem rnd (length (items r)) trimmedLine of
              Some itemMatch \<Rightarrow> r\<lparr>items := items r @ [itemMatch]\<rparr>
            | None \<Rightarrow> r)
      else r)"

definition lineFields :: "jsstring \<Rightarrow> receipt_rec \<Rightarrow> receipt_rec" where
  "lineFields trimmedLine r =
     r\<lparr>metadata := extractMetadata trimmedLine (metadata r),
       store := extractStoreInfo trimmedLine (store r),
       totals := extractTotals trimmedLine (totals r),
       payment := extractPaymentInfo trimmedLine (payment r),
       cashier_info := extractCashierInfo trimmedLine (cashier_info r),
       fiscal_info := extractFiscalInfo trimmedLine (fiscal_info r),
       loyalty := extractLoyaltyInfo trimmedLine (loyalty r)\<rparr>"

text \<open>The body of the loop of \<open>extractLineData\<close> for one line.\<close>

definition lineStep :: "(nat \<Rightarrow> jsstring) \<Rightarrow> jsstring \<Rightarrow> receipt_rec \<Rightarrow> receipt_rec" where
  "lineStep rnd line r =
     (if trim line = [] then r else lineItem rnd (trim line) (lineFields (trim line) r))"

fun extractLineData :: "(nat \<Rightarrow> jsstring) \<Rightarrow> jsstring list \<Rightarrow> receipt_rec \<Rightarrow> receipt_rec" where
  "extractLineData rnd [] r = r"
| "extractLineData rnd (line # ls) r = extractLineData rnd ls (lineStep rnd line r)"

subsection \<open>extractPatternData\<close>

text \<open>
  \<open>/summe\s*[\<euro>\<euro>]?\s*([0-9]+[.,]?[0-9]*)/i\<close>, the same for \<open>total\<close> and \<open>gesamt\<close>,
  \<open>/[\<euro>\<euro>]\s*([0-9]+[.,]?[0-9]*)\s*$/im\<close>, \<open>/([0-9]+[.,]?[0-9]*)\s*[\<euro>\<euro>]\s*$/im\<close>
\<close>

definition document_total :: "string \<Rightarrow> regex" where
  "document_total label = re_i (lit label @ [many0 [Space], maybe eur, many0 [Space]] @ amount)"

definition documentTotalPatterns :: "regex list" where
  "documentTotalPatterns =
     [document_total ''summe'', document_total ''total'', document_total ''gesamt'',
      re_im ([ch1 eur, many0 [Space]] @ amount @ [many0 [Space], Eol]),
      re_im (amount @ [many0 [Space], ch1 eur, many0 [Space], Eol])]"

definition extractPatternData :: "jsstring \<Rightarrow> receipt_rec \<Rightarrow> receipt_rec" where
  "extractPatternData markdown r =
     (let r1 = (if \<not> truthy (total_amount (totals r))
                then (case first_amount markdown documentTotalPatterns of
                        Some amt \<Rightarrow> r\<lparr>totals := (totals r)\<lparr>total_amount := Some amt\<rparr>\<rparr>
                      | None \<Rightarrow> r)
                else r)
      in if \<not> truthy_str (date (metadata r1))
         then (case first_group markdown datePatterns of
                 Some d \<Rightarrow> r1\<lparr>metadata := (metadata r1)\<lparr>date := Some d\<rparr>\<rparr>
               | None \<Rightarrow> r1)
         else r1)"

subsection \<open>extractItemsFallback\<close>

text \<open>
  \<open>/^([A-Z\<dots>\s\-\.]+)\s+(\d+)\s+([0-9,\.]+)/i\<close>, \<open>/^([A-Z\<dots>\s\-\.]+)\s+([0-9,\.]+)/i\<close> and
  \<open>/^([A-Z\<dots>\s\-\.]{3,})$/i\<close>; the class also has the code units 196, 214, 220 and
  223, the German capital umlauts and sharp s.
\<close>

definition nameClass :: "atom list" where
  "nameClass = [rng CHR ''A'' CHR ''Z'', Lit 196, Lit 214, Lit 220, Lit 223, Space, lc CHR ''-'', lc CHR ''.'']"

definition fallbackPatterns :: "regex list" where
  "fallbackPatterns =
     [re_i [Bol, Open, many1 nameClass, Close, many1 [Space], Open, many1 [Digit], Close, many1 [Space],
            Open, many1 d09cp, Close],
      re_i [Bol, Open, many1 nameClass, Close, many1 [Space], Open, many1 d09cp, Close],
      re_i [Bol, Open, Rep (In nameClass) 3 None False, Close, Eol]]"

text \<open>The loop over the patterns for one line: \<open>continue\<close> on a name that is not a product.\<close>

fun fallbackItem :: "(nat \<Rightarrow> jsstring) \<Rightarrow> nat \<Rightarrow> jsstring \<Rightarrow> regex list \<Rightarrow> line_item option" where
  "fallbackItem rnd k trimmedLine [] = None"
| "fallbackItem rnd k trimmedLine (p # ps) =
     (case js_match trimmedLine p of
        None \<Rightarrow> fallbackItem rnd k trimmedLine ps
      | Some m \<Rightarrow>
          if isNotAProduct (trim (grp_str m 1)) then fallbackItem rnd k trimmedLine ps
          else Some (newItem rnd k (trim (grp_str m 1))
                       (if truthy_str (grp m 2) then parseInt (grp_str m 2) else Num 1)
                       (if truthy_str (grp m 3) then parsePrice (grp m 3) else None)
                       trimmedLine))"

definition potentialStep :: "(nat \<Rightarrow> jsstring) \<Rightarrow> jsstring \<Rightarrow> line_item list \<Rightarrow> line_item list" where
  "potentialStep rnd trimmedLine potentialItems =
     (if trimmedLine = [] \<or> isHeaderOrTotal trimmedLine then potentialItems
      else (case fallbackItem rnd (length potentialItems) trimmedLine fallbackPatterns of
              Some it \<Rightarrow> potentialItems @ [it]
            | None \<Rightarrow> potentialItems))"

fun potentialLoop :: "(nat \<Rightarrow> jsstring) \<Rightarrow> jsstring list \<Rightarrow> line_item list \<Rightarrow> line_item list" where
  "potentialLoop rnd [] potentialItems = potentialItems"
| "potentialLoop rnd (line # ls) potentialItems =
     potentialLoop rnd ls (potentialStep rnd (trim line) potentialItems)"

text \<open>The loop that adds the items whose lower-case name has not been seen.\<close>

fun addUnique :: "line_item list \<Rightarrow> jsstring list \<Rightarrow> line_item list \<Rightarrow> line_item list" where
  "addUnique [] seenNames its = its"
| "addUnique (it # rest) seenNames its =
     (if List.member seenNames (toLowerCase (product_name it)) then addUnique rest seenNames its
      else addUnique rest (toLowerCase (product_name it) # seenNames) (its @ [it]))"

definition extractItemsFallback :: "(nat \<Rightarrow> jsstring) \<Rightarrow> jsstring \<Rightarrow> receipt_rec \<Rightarrow> receipt_rec" where
  "extractItemsFallback rnd markdown r =
     r\<lparr>items := addUnique (potentialLoop rnd (split_on 10 markdown) []) [] (items r)\<rparr>"

subsection \<open>extractStructuredData: the row parsers\<close>

text \<open>\<open>/\s{2,}/\<close>\<close>

definition re_gap :: regex where
  "re_gap = re [Rep (In [Space]) 2 None False]"

definition parseEDEKATableRow :: "(nat \<Rightarrow> jsstring) \<Rightarrow> nat \<Rightarrow> jsstring \<Rightarrow> line_item option" where
  "parseEDEKATableRow rnd k line =
     (if line = [] \<or> js_includes line (str ''---'') \<or> js_includes line (str ''Product'')
         \<or> js_includes line (str ''Quantity'') \<or> js_includes line (str ''Price'')
      then None
      else (let parts = filter (\<lambda>part. trim part \<noteq> []) (js_split line re_gap)
            in if length parts \<ge> 2
               then (if isNotAProduct (trim (parts ! 0)) then None
                     else Some (newItem rnd k (trim (parts ! 0))
                                  (if truthy_str (nth_opt parts 1) then or_one (parseInt (parts ! 1)) else Num 1)
                                  (if truthy_str (nth_opt parts 2) then parsePrice (nth_opt parts 2) else None)
                                  line))
               else None))"

text \<open>\<open>const [itemName, quantity, price] = columns\<close>; the caller passes three cells or more.\<close>

definition parseTableRow :: "(nat \<Rightarrow> jsstring) \<Rightarrow> nat \<Rightarrow> jsstring list \<Rightarrow> line_item option" where
  "parseTableRow rnd k columns =
     (case nth_opt columns 0 of
        None \<Rightarrow> None
      | Some itemName \<Rightarrow>
          if itemName = [] \<or> itemName = str ''Item'' \<or> itemName = str ''---'' then None
          else Some (newItem rnd k itemName
                       (case nth_opt columns 1 of Some q \<Rightarrow> or_one (parseInt q) | None \<Rightarrow> Num 1)
                       (parsePrice (nth_opt columns 2))
                       (join (str '' | '') columns)))"

text \<open>
  \<open>/\*\*(.+?)\*\*\s+(\d+)\s+([0-9,]+)/\<close>, \<open>/\*\*(.+?)\*\*\s+([0-9,]+)/\<close> and
  \<open>/\*\*(.+?)\*\*\s+(\d+)\s*[xX]\s*([0-9,]+)/\<close>
\<close>

definition bold_name :: "item list" where
  "bold_name = lit ''**'' @ lazy_name @ lit ''**''"

definition listPatterns :: "regex list" where
  "listPatterns =
     [re (bold_name @ [many1 [Space], Open, many1 [Digit], Close, many1 [Space], Open, many1 d09c, Close]),
      re (bold_name @ [many1 [Space], Open, many1 d09c, Close]),
      re (bold_name @ [many1 [Space], Open, many1 [Digit], Close, many0 [Space],
                       ch1 [lc CHR ''x'', lc CHR ''X''], many0 [Space], Open, many1 d09c, Close])]"

fun firstListItem :: "(nat \<Rightarrow> jsstring) \<Rightarrow> nat \<Rightarrow> jsstring \<Rightarrow> regex list \<Rightarrow> line_item option" where
  "firstListItem rnd k cleanLine [] = None"
| "firstListItem rnd k cleanLine (p # ps) =
     (case js_match cleanLine p of
        None \<Rightarrow> firstListItem rnd k cleanLine ps
      | Some m \<Rightarrow>
          Some (newItem rnd k (trim (grp_str m 1))
                  (if truthy_str (grp m 2) then parseInt (grp_str m 2) else Num 1)
                  (parsePrice (if truthy_str (grp m 3) then grp m 3 else grp m 2))
                  cleanLine))"

definition parseListItem :: "(nat \<Rightarrow> jsstring) \<Rightarrow> nat \<Rightarrow> jsstring \<Rightarrow> line_item option" where
  "parseListItem rnd k line =
     firstListItem rnd k (js_replace_all (js_replace line re_bullet []) re_stars []) listPatterns"

text \<open>
  \<open>/\*\s*\*\*([^*]+)\*\*/\<close>, \<open>/Quantity:\s*(\d+)/i\<close>, \<open>/Price:\s*([0-9,\.]+)\s*EUR/i\<close>,
  \<open>/Price:\s*([0-9,\.]+)/i\<close> and \<open>/Weight:\s*(\d+)\s*kg/i\<close>
\<close>

definition re_bullet_bold :: regex where
  "re_bullet_bold =
     re (lit ''*'' @ [many0 [Space]] @ lit ''**'' @ [Open, Rep (NotIn [lc CHR ''*'']) 1 None False, Close] @ lit ''**'')"

definition re_quantity_i :: regex where
  "re_quantity_i = re_i (lit ''Quantity:'' @ [many0 [Space], Open, many1 [Digit], Close])"

definition re_price_eur_i :: regex where
  "re_price_eur_i = re_i (lit ''Price:'' @ [many0 [Space], Open, many1 d09cp, Close, many0 [Space]] @ lit ''EUR'')"

definition re_price_i :: regex where
  "re_price_i = re_i (lit ''Price:'' @ [many0 [Space], Open, many1 d09cp, Close])"

definition re_weight_i :: regex where
  "re_weight_i = re_i (lit ''Weight:'' @ [many0 [Space], Open, many1 [Digit], Close, many0 [Space]] @ lit ''kg'')"

text \<open>The locals \<open>quantity\<close> and \<open>price\<close> of \<open>parseNewListItem\<close> after one following line.\<close>

definition detailQuantity :: "jsstring \<Rightarrow> jsnum \<Rightarrow> jsnum" where
  "detailQuantity nextLine qty =
     (let q1 = (case js_match nextLine re_quantity_i of Some m \<Rightarrow> parseInt (grp_str m 1) | None \<Rightarrow> qty)
      in case js_match nextLine re_weight_i of Some m \<Rightarrow> parseInt (grp_str m 1) | None \<Rightarrow> q1)"

definition detailPrice :: "jsstring \<Rightarrow> jsnum option \<Rightarrow> jsnum option" where
  "detailPrice nextLine price =
     (let p1 = (case js_match nextLine re_price_eur_i of Some m \<Rightarrow> parsePrice (grp m 1) | None \<Rightarrow> price);
          p2 = (case js_match nextLine re_price_i of
                  Some m \<Rightarrow> if \<not> truthy p1 then parsePrice (grp m 1) else p1
                | None \<Rightarrow> p1)
      in if js_includes nextLine (str ''EUR / kg'') \<or> js_includes nextLine (str ''EUR/kg'') then None else p2)"

text \<open>The loop over the lines after the product line (at most nine of them).\<close>

fun details :: "jsstring list \<Rightarrow> jsnum \<times> jsnum option \<Rightarrow> jsnum \<times> jsnum option" where
  "details [] qp = qp"
| "details (l # ls) qp =
     (if trim l = [] then details ls qp
      else if startsWith (trim l) (str ''*'') \<and> js_includes (trim l) (str ''**'') then qp
      else details ls (detailQuantity (trim l) (fst qp), detailPrice (trim l) (snd qp)))"

definition parseNewListItem :: "(nat \<Rightarrow> jsstring) \<Rightarrow> nat \<Rightarrow> jsstring \<Rightarrow> jsstring list \<Rightarrow> line_item option" where
  "parseNewListItem rnd k line following =
     (case js_match line re_bullet_bold of
        None \<Rightarrow> None
      | Some productMatch \<Rightarrow>
          Some (newItem rnd k (trim (grp_str productMatch 1))
                  (fst (details (take 9 following) (Num 1, None)))
                  (snd (details (take 9 following) (Num 1, None)))
                  line))"

subsection \<open>extractStructuredData: the loop\<close>

text \<open>
  The locals of \<open>extractStructuredData\<close> and the items pushed so far. \<open>numstr\<close> is the
  conversion of a number to a string in a template literal; it is a parameter.
\<close>

record scan =
  inTable :: bool
  inItemsSection :: bool
  inItemsPurchased :: bool
  inEDEKATable :: bool
  currentProduct :: "jsstring option"
  inProductsSection :: bool
  found :: "line_item list"

definition push :: "line_item option \<Rightarrow> scan \<Rightarrow> scan" where
  "push it st = (case it of Some i \<Rightarrow> st\<lparr>found := found st @ [i]\<rparr> | None \<Rightarrow> st)"

text \<open>
  The body of the loop for one line (\<open>line\<close> is trimmed, \<open>following\<close> are the lines
  after it), read from its end to its start: each function is the rest of the body from
  one check on, and returning without calling the next one is \<open>continue\<close>.
\<close>

definition itemsPurchased :: "(nat \<Rightarrow> jsstring) \<Rightarrow> jsstring \<Rightarrow> jsstring list \<Rightarrow> scan \<Rightarrow> scan" where
  "itemsPurchased rnd line following st =
     (if js_includes line (str ''Items Purchased'') \<or> js_includes line (str ''Items purchased'')
      then st\<lparr>inItemsPurchased := True\<rparr>
      else if inItemsPurchased st \<and> startsWith line (str ''*'') \<and> js_includes line (str ''**'')
      then push (parseNewListItem rnd (length (found st)) line following) st
      else if inItemsPurchased st \<and> \<not> startsWith line (str ''*'') \<and> \<not> js_includes line [9]
              \<and> \<not> js_includes line (str ''+'')
      then st\<lparr>inItemsPurchased := False\<rparr>
      else st)"

definition itemsList :: "(nat \<Rightarrow> jsstring) \<Rightarrow> jsstring \<Rightarrow> jsstring list \<Rightarrow> scan \<Rightarrow> scan" where
  "itemsList rnd line following st =
     (if isItemsSection line then st\<lparr>inItemsSection := True\<rparr>
      else if inItemsSection st \<and> startsWith line (str ''*'') \<and> js_includes line (str ''**'')
      then itemsPurchased rnd line following (push (parseListItem rnd (length (found st)) line) st)
      else if inItemsSection st \<and> \<not> startsWith line (str ''*'')
      then itemsPurchased rnd line following (st\<lparr>inItemsSection := False\<rparr>)
      else itemsPurchased rnd line following st)"

definition cells :: "jsstring \<Rightarrow> jsstring list" where
  "cells line = filter (\<lambda>col. col \<noteq> []) (map trim (split_on 124 line))"

definition stdTable :: "(nat \<Rightarrow> jsstring) \<Rightarrow> jsstring \<Rightarrow> jsstring list \<Rightarrow> scan \<Rightarrow> scan" where
  "stdTable rnd line following st =
     (if js_includes line (str ''|'') \<and> js_includes line (str ''---'') then st\<lparr>inTable := True\<rparr>
      else if inTable st \<and> js_includes line (str ''|'')
      then (if length (cells line) \<ge> 3
            then itemsList rnd line following (push (parseTableRow rnd (length (found st)) (cells line)) st)
            else itemsList rnd line following st)
      else if inTable st then itemsList rnd line following (st\<lparr>inTable := False\<rparr>)
      else itemsList rnd line following st)"

definition plainTable :: "(nat \<Rightarrow> jsstring) \<Rightarrow> jsstring \<Rightarrow> jsstring list \<Rightarrow> scan \<Rightarrow> scan" where
  "plainTable rnd line following st =
     (if js_includes line (str ''Product'') \<and> js_includes line (str ''Quantity'') \<and> js_includes line (str ''Price'')
      then st\<lparr>inEDEKATable := True\<rparr>
      else if inEDEKATable st
      then (if js_includes line (str ''Posten:'') \<or> js_includes line (str ''SUMME'')
               \<or> js_includes line (str ''Datum:'')
            then st\<lparr>inEDEKATable := False\<rparr>
            else stdTable rnd line following (push (parseEDEKATableRow rnd (length (found st)) line) st))
      else stdTable rnd line following st)"

text \<open>\<open>/\*\*([^*]+)\*\*/\<close>, \<open>/([0-9,]+)\s*\<euro>\s*x\s*(\d+)/\<close> and \<open>/([0-9,]+)\s*[A-Z]/\<close>\<close>

definition re_bold :: regex where
  "re_bold = re (lit ''**'' @ [Open, Rep (NotIn [lc CHR ''*'']) 1 None False, Close] @ lit ''**'')"

definition re_unit_times :: regex where
  "re_unit_times =
     re ([Open, many1 d09c, Close, many0 [Space], ch1 [Lit euro], many0 [Space]] @ lit ''x'' @
         [many0 [Space], Open, many1 [Digit], Close])"

definition re_price_letter :: regex where
  "re_price_letter = re [Open, many1 d09c, Close, many0 [Space], ch1 [rng CHR ''A'' CHR ''Z'']]"

text \<open>The quantity and the price read from the first cell of a row under a product.\<close>

definition cellQuantity :: "jsstring \<Rightarrow> jsnum" where
  "cellQuantity quantityPrice =
     (case js_match quantityPrice re_unit_times of
        Some quantityMatch \<Rightarrow> parseInt (grp_str quantityMatch 2)
      | None \<Rightarrow> Num 1)"

definition cellPrice :: "jsstring \<Rightarrow> jsnum option" where
  "cellPrice quantityPrice =
     (case js_match quantityPrice re_unit_times of
        Some quantityMatch \<Rightarrow> parsePrice (grp quantityMatch 1)
      | None \<Rightarrow>
          (case js_match quantityPrice re_price_letter of
             Some simplePriceMatch \<Rightarrow> parsePrice (grp simplePriceMatch 1)
           | None \<Rightarrow> None))"

definition cellRow :: "(nat \<Rightarrow> jsstring) \<Rightarrow> jsstring \<Rightarrow> jsstring list \<Rightarrow> scan \<Rightarrow> scan" where
  "cellRow rnd product parts st =
     (case parts of
        [] \<Rightarrow> st
      | quantityPrice # _ \<Rightarrow>
          (if \<not> isNotAProduct product
           then push (Some (newItem rnd (length (found st)) product (cellQuantity quantityPrice)
                              (if truthy_str (nth_opt parts 1) \<and> \<not> truthy (cellPrice quantityPrice)
                               then parsePrice (nth_opt parts 1) else cellPrice quantityPrice)
                              (product @ str '' - '' @ quantityPrice @ str '' - '' @
                               (case nth_opt parts 1 of Some tot \<Rightarrow> tot | None \<Rightarrow> []))))
                  st
           else st)\<lparr>currentProduct := None\<rparr>)"

definition barTable :: "(nat \<Rightarrow> jsstring) \<Rightarrow> jsstring \<Rightarrow> jsstring list \<Rightarrow> scan \<Rightarrow> scan" where
  "barTable rnd line following st =
     (if js_includes line (str ''|'') \<and> js_includes line (str ''**'') \<and> \<not> js_includes line (str ''---'')
      then (case js_match line re_bold of
              Some productMatch \<Rightarrow> st\<lparr>currentProduct := Some (trim (grp_str productMatch 1))\<rparr>
            | None \<Rightarrow> st)
      else if truthy_str (currentProduct st) \<and> js_includes line (str ''|'')
              \<and> \<not> js_includes line (str ''**'') \<and> \<not> js_includes line (str ''---'')
      then (case currentProduct st of
              Some product \<Rightarrow> cellRow rnd product (cells line) st
            | None \<Rightarrow> st)
      else if \<not> js_includes line (str ''|'') \<and> truthy_str (currentProduct st)
      then plainTable rnd line following (st\<lparr>currentProduct := None\<rparr>)
      else plainTable rnd line following st)"

text \<open>\<open>/Quantity:\s*([0-9,\.]+)/\<close> and \<open>/Price:\s*\<euro>([0-9,\.]+)/\<close>\<close>

definition re_quantity :: regex where
  "re_quantity = re (lit ''Quantity:'' @ [many0 [Space], Open, many1 d09cp, Close])"

definition re_price_euro :: regex where
  "re_price_euro = re (lit ''Price:'' @ [many0 [Space], ch1 [Lit euro], Open, many1 d09cp, Close])"

definition euroPrice :: "jsstring \<Rightarrow> jsnum option \<Rightarrow> jsnum option" where
  "euroPrice line dflt =
     (case js_match line re_price_euro of
        Some priceMatch \<Rightarrow> Some (parseFloat (replace_char 44 46 (grp_str priceMatch 1)))
      | None \<Rightarrow> dflt)"

text \<open>The look-ahead for a price on the lines after a quantity line (at most four of them).\<close>

fun lookAhead :: "jsstring list \<Rightarrow> jsnum option \<Rightarrow> jsnum option" where
  "lookAhead [] price = price"
| "lookAhead (l # ls) price =
     (if startsWith (trim l) (str ''+'') \<and> js_includes (trim l) (str ''Price:'')
      then euroPrice (trim l) price
      else if startsWith (trim l) (str ''*'') \<and> js_includes (trim l) (str ''**'') then price
      else lookAhead ls price)"

definition quantityOf :: "jsstring \<Rightarrow> jsnum" where
  "quantityOf line =
     (case js_match line re_quantity of
        Some quantityMatch \<Rightarrow> parseFloat (replace_char 44 46 (grp_str quantityMatch 1))
      | None \<Rightarrow> Num 1)"

definition priceOf :: "jsstring \<Rightarrow> jsstring list \<Rightarrow> jsnum option" where
  "priceOf line following =
     (if \<not> truthy (euroPrice line None) then lookAhead (take 4 following) (euroPrice line None)
      else euroPrice line None)"

definition quantityLine :: "(jsnum \<Rightarrow> jsstring) \<Rightarrow> (nat \<Rightarrow> jsstring) \<Rightarrow> jsstring \<Rightarrow> jsnum \<Rightarrow> jsnum option \<Rightarrow> scan \<Rightarrow> scan" where
  "quantityLine numstr rnd product qty price st =
     (if \<not> isNotAProduct product
      then push (Some (newItem rnd (length (found st)) product qty price
                         (product @ str '' - Qty: '' @ numstr qty @ str '' - Price: '' @ [euro] @
                          (case price of
                             Some p \<Rightarrow> if truthy_num p then numstr p else str ''N/A''
                           | None \<Rightarrow> str ''N/A''))))
             st
      else st)\<lparr>currentProduct := None\<rparr>"

definition inProducts :: "(jsnum \<Rightarrow> jsstring) \<Rightarrow> (nat \<Rightarrow> jsstring) \<Rightarrow> jsstring \<Rightarrow> jsstring list \<Rightarrow> scan \<Rightarrow> scan" where
  "inProducts numstr rnd line following st =
     (if inProductsSection st
      then (case js_match line re_bullet_bold of
              Some productMatch \<Rightarrow> st\<lparr>currentProduct := Some (trim (grp_str productMatch 1))\<rparr>
            | None \<Rightarrow>
                if truthy_str (currentProduct st) \<and> startsWith line (str ''+'')
                   \<and> js_includes line (str ''Quantity:'')
                then (case currentProduct st of
                        Some product \<Rightarrow>
                          quantityLine numstr rnd product (quantityOf line) (priceOf line following) st
                      | None \<Rightarrow> st)
                else if \<not> startsWith line (str ''*'') \<and> \<not> startsWith line (str ''+'') \<and> length line > 0
                then barTable rnd line following (st\<lparr>inProductsSection := False, currentProduct := None\<rparr>)
                else barTable rnd line following st)
      else barTable rnd line following st)"

definition scanStep :: "(jsnum \<Rightarrow> jsstring) \<Rightarrow> (nat \<Rightarrow> jsstring) \<Rightarrow> jsstring \<Rightarrow> jsstring list \<Rightarrow> scan \<Rightarrow> scan" where
  "scanStep numstr rnd line following st =
     (if js_includes line (str ''Products Purchased'') \<or> js_includes line (str ''Products purchased'')
      then st\<lparr>inProductsSection := True\<rparr>
      else inProducts numstr rnd line following st)"

fun scanLines :: "(jsnum \<Rightarrow> jsstring) \<Rightarrow> (nat \<Rightarrow> jsstring) \<Rightarrow> jsstring list \<Rightarrow> scan \<Rightarrow> scan" where
  "scanLines numstr rnd [] st = st"
| "scanLines numstr rnd (l # ls) st = scanLines numstr rnd ls (scanStep numstr rnd (trim l) ls st)"

definition extractStructuredData :: "(jsnum \<Rightarrow> jsstring) \<Rightarrow> (nat \<Rightarrow> jsstring) \<Rightarrow> jsstring list \<Rightarrow> receipt_rec \<Rightarrow> receipt_rec" where
  "extractStructuredData numstr rnd lines r =
     r\<lparr>items := found (scanLines numstr rnd lines
                        \<lparr>inTable = False, inItemsSection = False, inItemsPurchased = False,
                         inEDEKATable = False, currentProduct = None, inProductsSection = False,
                         found = items r\<rparr>)\<rparr>"

subsection \<open>parseMarkdown\<close>

definition emptyReceipt :: receipt_rec where
  "emptyReceipt =
     \<lparr>metadata = \<lparr>date = None, time = None, receipt_number = None, transaction_id = None\<rparr>,
      store = \<lparr>name = None, address = None, phone = None, tax_id = None, store_chain = None\<rparr>,
      items = [],
      totals = \<lparr>subtotal = None, vat_amount = None, vat_rate = None, total_amount = None,
                currency = str ''EUR''\<rparr>,
      payment = \<lparr>pay_method = None, amount_paid = None, change = None, card_type = None, card_number = None\<rparr>,
      cashier_info = \<lparr>start_time = None, end_time = None, cashier_number = None, terminal_number = None\<rparr>,
      fiscal_info = \<lparr>tse_signature = None, signature_counter = None, signature = None,
                     signature_data = None, fiscal_data = None\<rparr>,
      loyalty = \<lparr>program = None, points_earned = None, points_balance = None\<rparr>\<rparr>"

text \<open>The fallback of \<open>parseMarkdown\<close>: only when no item has been found.\<close>

definition fallbackIfEmpty :: "(nat \<Rightarrow> jsstring) \<Rightarrow> jsstring \<Rightarrow> receipt_rec \<Rightarrow> receipt_rec" where
  "fallbackIfEmpty rnd markdown r =
     (if length (items r) = 0 then extractItemsFallback rnd markdown r else r)"

text \<open>
  The strategies in the order of \<open>parseMarkdown\<close>, on the lines \<open>markdown.split('\n')\<close>.
\<close>

definition parseReceipt :: "(jsnum \<Rightarrow> jsstring) \<Rightarrow> (nat \<Rightarrow> jsstring) \<Rightarrow> jsstring \<Rightarrow> receipt_rec" where
  "parseReceipt numstr rnd markdown =
     fallbackIfEmpty rnd markdown
       (extractPatternData markdown
          (extractLineData rnd (split_on 10 markdown)
             (extractStructuredData numstr rnd (split_on 10 markdown) emptyReceipt)))"

text \<open>\<open>now\<close> is \<open>new Date().toISOString()\<close> at the call.\<close>

definition parseMarkdown :: "(jsnum \<Rightarrow> jsstring) \<Rightarrow> (nat \<Rightarrow> jsstring) \<Rightarrow> jsstring \<Rightarrow> jsstring \<Rightarrow> parse_result" where
  "parseMarkdown numstr rnd now markdown =
     \<lparr>receipt = parseReceipt numstr rnd markdown,
      ocr_data = \<lparr>raw_markdown = markdown, confidence_score = None, processing_time = None\<rparr>,
      processing_info = \<lparr>timestamp = now, version = str ''1.0.0'',
                         ocr_model = str ''Llama-3.2-11B-Vision'', parser_version = str ''1.0.0''\<rparr>\<rparr>"

section \<open>The orchestrator: MultiOCRService.processImage\<close>

text \<open>
  A backend is what \<open>service.processImage(imagePath)\<close> does when it is raced against the
  timer of \<open>processWithService\<close>: the promise resolves with a result (or with no value),
  rejects with a message, or the timer fires first. Confidences are compared with
  \<open>>=\<close> and \<open>>\<close> only; they are modelled as rationals (a finite double is one).
\<close>

record ocr_result =
  ocr_text :: string
  confidence :: rat

datatype settle = Resolved "ocr_result option" | Rejected string | TimerFirst

type_synonym backend = "string \<Rightarrow> nat \<Rightarrow> settle"

record config =
  primary :: string
  fallback :: string
  timeout :: nat
  minConfidence :: rat

text \<open>\<open>this.services\<close>: the entries in insertion order, as \<open>Object.entries\<close> lists them.\<close>

type_synonym services = "(string \<times> backend) list"

record tagged_result =
  r_text :: string
  r_confidence :: rat
  service_used :: string
  fallback_used :: bool

text \<open>One element of the local array \<open>results\<close>.\<close>

record attempt =
  a_service :: string
  a_result :: "ocr_result option"
  a_error :: "string option"

text \<open>
  The locals of one run. \<open>calls\<close> is not in the source: it lists the backends whose
  \<open>processImage\<close> was invoked, in order, so that claims about invocations can be stated.
\<close>

record run =
  calls :: "string list"
  results :: "attempt list"
  bestResult :: "tagged_result option"

datatype orchestrator_error = AllServicesFailed

definition tag :: "ocr_result \<Rightarrow> string \<Rightarrow> bool \<Rightarrow> tagged_result" where
  "tag r s f = \<lparr>r_text = ocr_text r, r_confidence = confidence r, service_used = s, fallback_used = f\<rparr>"

text \<open>
  The decimal digits of a timeout, a whole number of milliseconds, as a template string
  prints it (in full below \<open>10^21\<close>).
\<close>

function decimal :: "nat \<Rightarrow> string" where
  "decimal n =
     (if n < 10 then [''0123456789'' ! n] else decimal (n div 10) @ [''0123456789'' ! (n mod 10)])"
  by pat_completeness auto
termination
  by (relation "measure (\<lambda>n. n)") auto

definition processWithService :: "services \<Rightarrow> string \<Rightarrow> string \<Rightarrow> nat \<Rightarrow> string + ocr_result option" where
  "processWithService svcs serviceName imagePath tmo =
     (case map_of svcs serviceName of
        None \<Rightarrow> Inl (''Service '' @ serviceName @ '' not available'')
      | Some service \<Rightarrow>
          (case service imagePath tmo of
             Resolved r \<Rightarrow> Inr r
           | Rejected msg \<Rightarrow> Inl msg
           | TimerFirst \<Rightarrow>
               Inl (''Service '' @ serviceName @ '' timed out after '' @ decimal tmo @ ''ms'')))"

definition invoked :: "services \<Rightarrow> string \<Rightarrow> run \<Rightarrow> run" where
  "invoked svcs serviceName st =
     (if map_of svcs serviceName = None then st else st\<lparr>calls := calls st @ [serviceName]\<rparr>)"

text \<open>
  The primary and the fallback block: \<open>Inl\<close> is the early \<open>return\<close>, \<open>Inr\<close> the run
  going on with the attempt pushed onto \<open>results\<close>.
\<close>

definition tryService :: "config \<Rightarrow> services \<Rightarrow> string \<Rightarrow> string \<Rightarrow> bool \<Rightarrow> run \<Rightarrow> (tagged_result \<times> run) + run" where
  "tryService cfg svcs imagePath serviceName fb st =
     (let st1 = invoked svcs serviceName st in
      case processWithService svcs serviceName imagePath (timeout cfg) of
        Inr (Some r) \<Rightarrow>
          if confidence r \<ge> minConfidence cfg
          then Inl (tag r serviceName fb, st1)
          else Inr (st1\<lparr>results := results st1 @
                 [\<lparr>a_service = serviceName, a_result = Some r, a_error = Some ''Low confidence''\<rparr>]\<rparr>)
      | Inr None \<Rightarrow>
          Inr (st1\<lparr>results := results st1 @
                 [\<lparr>a_service = serviceName, a_result = None, a_error = Some ''Low confidence''\<rparr>]\<rparr>)
      | Inl msg \<Rightarrow>
          Inr (st1\<lparr>results := results st1 @
                 [\<lparr>a_service = serviceName, a_result = None, a_error = Some msg\<rparr>]\<rparr>))"

text \<open>The body of the loop over all services, for one entry.\<close>

definition tryAdditional :: "config \<Rightarrow> services \<Rightarrow> string \<Rightarrow> string \<Rightarrow> run \<Rightarrow> run" where
  "tryAdditional cfg svcs imagePath serviceName st =
     (if serviceName \<noteq> primary cfg \<and> serviceName \<noteq> fallback cfg then
        (let st1 = invoked svcs serviceName st in
         case processWithService svcs serviceName imagePath (timeout cfg) of
           Inr (Some r) \<Rightarrow>
             (let st2 = st1\<lparr>results := results st1 @
                          [\<lparr>a_service = serviceName, a_result = Some r, a_error = None\<rparr>]\<rparr>
              in case bestResult st2 of
                   None \<Rightarrow> st2\<lparr>bestResult := Some (tag r serviceName True)\<rparr>
                 | Some b \<Rightarrow>
                     if confidence r > r_confidence b
                     then st2\<lparr>bestResult := Some (tag r serviceName True)\<rparr>
                     else st2)
         | Inr None \<Rightarrow> st1
         | Inl msg \<Rightarrow>
             st1\<lparr>results := results st1 @
                   [\<lparr>a_service = serviceName, a_result = None, a_error = Some msg\<rparr>]\<rparr>)
      else st)"

fun tryAll :: "config \<Rightarrow> services \<Rightarrow> string \<Rightarrow> string list \<Rightarrow> run \<Rightarrow> run" where
  "tryAll cfg svcs imagePath [] st = st"
| "tryAll cfg svcs imagePath (n # ns) st =
     tryAll cfg svcs imagePath ns (tryAdditional cfg svcs imagePath n st)"

definition finish :: "run \<Rightarrow> (orchestrator_error + tagged_result) \<times> run" where
  "finish st = (case bestResult st of Some b \<Rightarrow> (Inr b, st) | None \<Rightarrow> (Inl AllServicesFailed, st))"

definition processImage :: "config \<Rightarrow> services \<Rightarrow> string \<Rightarrow> (orchestrator_error + tagged_result) \<times> run" where
  "processImage cfg svcs imagePath =
     (let st0 = \<lparr>calls = [], results = [], bestResult = None\<rparr>;
          p = (if map_of svcs (primary cfg) \<noteq> None
               then tryService cfg svcs imagePath (primary cfg) False st0
               else Inr st0)
      in case p of
           Inl (res, st) \<Rightarrow> (Inr res, st)
         | Inr st1 \<Rightarrow>
             (let f = (if map_of svcs (fallback cfg) \<noteq> None \<and> fallback cfg \<noteq> primary cfg
                       then tryService cfg svcs imagePath (fallback cfg) True st1
                       else Inr st1)
              in case f of
                   Inl (res, st) \<Rightarrow> (Inr res, st)
                 | Inr st2 \<Rightarrow> finish (tryAll cfg svcs imagePath (map fst svcs) st2)))"

definition default_config :: config where
  "default_config = \<lparr>primary = ''google'', fallback = ''tesseract'', timeout = 30000, minConfidence = 1/2\<rparr>"

section \<open>Properties stated about the engine\<close>

text \<open>
  The unit price of an item is derived from its total price: the total divided by the
  quantity, and \<open>null\<close> when the total is \<open>null\<close>.
\<close>

definition derived_price :: "line_item \<Rightarrow> bool" where
  "derived_price it =
     (case total_price it of
        Some p \<Rightarrow> unit_price it = Some (jsdiv p (quantity it))
      | None \<Rightarrow> unit_price it = None)"

text \<open>An item and a receipt with the generated item codes blanked.\<close>

definition anonymous :: "line_item \<Rightarrow> line_item" where
  "anonymous it = it\<lparr>item_code := []\<rparr>"

definition without_codes :: "receipt_rec \<Rightarrow> receipt_rec" where
  "without_codes r = r\<lparr>items := map anonymous (items r)\<rparr>"

text \<open>Two states of the scan that agree but for the item codes.\<close>

definition same_scan :: "scan \<Rightarrow> scan \<Rightarrow> bool" where
  "same_scan st st' =
     (inTable st = inTable st' \<and> inItemsSection st = inItemsSection st'
      \<and> inItemsPurchased st = inItemsPurchased st' \<and> inEDEKATable st = inEDEKATable st'
      \<and> currentProduct st = currentProduct st' \<and> inProductsSection st = inProductsSection st'
      \<and> map anonymous (found st) = map anonymous (found st'))"

text \<open>
  A field that holds a truthy value (a string that is not empty, a number that is neither
  0 nor NaN) has the same value later.
\<close>

definition kept_str :: "jsstring option \<Rightarrow> jsstring option \<Rightarrow> bool" where
  "kept_str a b = (truthy_str a \<longrightarrow> b = a)"

definition kept_num :: "jsnum option \<Rightarrow> jsnum option \<Rightarrow> bool" where
  "kept_num a b = (truthy a \<longrightarrow> b = a)"

definition keeps :: "receipt_rec \<Rightarrow> receipt_rec \<Rightarrow> bool" where
  "keeps r r' =
     (kept_str (date (metadata r)) (date (metadata r'))
      \<and> kept_str (time (metadata r)) (time (metadata r'))
      \<and> kept_str (receipt_number (metadata r)) (receipt_number (metadata r'))
      \<and> kept_str (transaction_id (metadata r)) (transaction_id (metadata r'))
      \<and> kept_str (name (store r)) (name (store r'))
      \<and> kept_str (address (store r)) (address (store r'))
      \<and> kept_str (phone (store r)) (phone (store r'))
      \<and> kept_str (tax_id (store r)) (tax_id (store r'))
      \<and> kept_str (store_chain (store r)) (store_chain (store r'))
      \<and> kept_num (subtotal (totals r)) (subtotal (totals r'))
      \<and> kept_num (vat_amount (totals r)) (vat_amount (totals r'))
      \<and> kept_num (vat_rate (totals r)) (vat_rate (totals r'))
      \<and> kept_num (total_amount (totals r)) (total_amount (totals r'))
      \<and> currency (totals r') = currency (totals r)
      \<and> kept_str (pay_method (payment r)) (pay_method (payment r'))
      \<and> kept_num (amount_paid (payment r)) (amount_paid (payment r'))
      \<and> kept_num (change (payment r)) (change (payment r'))
      \<and> kept_str (card_type (payment r)) (card_type (payment r'))
      \<and> kept_str (card_number (payment r)) (card_number (payment r'))
      \<and> kept_str (start_time (cashier_info r)) (start_time (cashier_info r'))
      \<and> kept_str (end_time (cashier_info r)) (end_time (cashier_info r'))
      \<and> kept_str (cashier_number (cashier_info r)) (cashier_number (cashier_info r'))
      \<and> kept_str (terminal_number (cashier_info r)) (terminal_number (cashier_info r'))
      \<and> kept_str (tse_signature (fiscal_info r)) (tse_signature (fiscal_info r'))
      \<and> kept_str (signature_counter (fiscal_info r)) (signature_counter (fiscal_info r'))
      \<and> kept_str (signature (fiscal_info r)) (signature (fiscal_info r'))
      \<and> kept_str (signature_data (fiscal_info r)) (signature_data (fiscal_info r'))
      \<and> kept_str (fiscal_data (fiscal_info r)) (fiscal_data (fiscal_info r'))
      \<and> kept_str (program (loyalty r)) (program (loyalty r'))
      \<and> kept_num (points_earned (loyalty r)) (points_earned (loyalty r'))
      \<and> kept_num (points_balance (loyalty r)) (points_balance (loyalty r')))"

text \<open>
  What holds of the fields that are set together with another one, in every state the
  line pass reaches: a card type or a chain is there only with the method or the name,
  and the programme is \<open>PAYBACK\<close> or \<open>null\<close>.
\<close>

definition paired :: "receipt_rec \<Rightarrow> bool" where
  "paired r =
     ((truthy_str (card_type (payment r)) \<longrightarrow> truthy_str (pay_method (payment r)))
      \<and> (truthy_str (store_chain (store r)) \<longrightarrow> truthy_str (name (store r)))
      \<and> (program (loyalty r) = None \<or> program (loyalty r) = Some (str ''PAYBACK'')))"






text \<open>What the line pass does to the totals: \<open>extractTotals\<close> on every line that is not blank.\<close>

fun totalsPass :: "jsstring list \<Rightarrow> totals_rec \<Rightarrow> totals_rec" where
  "totalsPass [] t = t"
| "totalsPass (l # ls) t = totalsPass ls (if trim l = [] then t else extractTotals (trim l) t)"

text \<open>The line \<open>G&G Gouda 1,99 \<euro> x 2 3,98 \<euro>\<close>.\<close>

definition gouda :: jsstring where
  "gouda = str ''G&G Gouda 1,99 '' @ [euro] @ str '' x 2 3,98 '' @ [euro]"

text \<open>
  The same product in a table with bars: the row of the name and the row of the price,
  as the comments of the scan give them.
\<close>

definition gouda_rows :: "jsstring list" where
  "gouda_rows = [str ''| **G&G Gouda** | **EUR** |'', str ''| 1,99 '' @ [euro] @ str '' x 2 | 3,98 |'']"

text \<open>
  The first lines of the receipt of \<open>processWithMockOCR\<close>: the heading, an empty line
  and the item lines \<open>Vollmilch 3.5% 2x \<euro>3.50\<close> and \<open>Vollkornbrot 1x \<euro>2.80\<close>.
\<close>

definition milk_line :: jsstring where
  "milk_line = str ''Vollmilch 3.5% 2x '' @ [euro] @ str ''3.50''"

definition bread_line :: jsstring where
  "bread_line = str ''Vollkornbrot 1x '' @ [euro] @ str ''2.80''"

definition mock_head :: jsstring where
  "mock_head = str ''# Receipt'' @ [10, 10] @ milk_line @ [10] @ bread_line"

section \<open>Evaluation\<close>

text \<open>The definitions that a concrete string, number or pattern unfolds to.\<close>

lemma floor_quotient: "\<lfloor>numeral a / numeral b :: rat\<rfloor> = numeral a div numeral b"
  using floor_divide_of_int_eq [of "numeral a" "numeral b", where ?'a = rat] by simp

lemmas num_defs = pow2_def binade_def half_even_def quantum_def nearest_def double_of_def


text \<open>Small integers and halves are doubles.\<close>

lemma double_of_exact:
  "double_of 0 = Num 0" "double_of 1 = Num 1" "double_of 2 = Num 2" "double_of 3 = Num 3"
  "double_of 5 = Num 5" "double_of 10 = Num 10" "double_of 12 = Num 12"
  "double_of (1 / 2) = Num (1 / 2)" "double_of (3 / 2) = Num (3 / 2)"
  "double_of (7 / 2) = Num (7 / 2)" "double_of (7 / 4) = Num (7 / 4)"
  by (simp_all add: num_defs floor_quotient)

lemmas js_defs =
  str_def euro_def isSpace_def isLineTerminator_def isDigit_def upper_def lower_def lowerCase_def
  toLowerCase_def toUpperCase_def trimStart_def trim_def startsWith_def nth_opt_def truthy_str_def
  truthy_num_def truthy_def signed_def is_negative_def after_sign_def fraction_digits_def
  after_fraction_def scale_def mantissa_def parseUnsigned_def parseFloat_def isHexDigit_def
  parseDigits_def parseIntUnsigned_def parseInt_def or_one_def double_of_exact

lemmas re_defs =
  counts_def bound_def prev_after_def grow_def at_bol_def at_eol_def close_group_def
  js_match_def js_test_def grp_def grp_str_def js_replace_def consumed_def js_replace_all_def
  js_split_def lc_def rng_def ch1_def many0_def many1_def maybe_def exactly_def lit_def
  re_def re_i_def re_im_def d09_def d09c_def d09cp_def eur_def amount_def

lemmas pattern_defs =
  re_currency_space_def re_brand_caps_def re_brand_word_def re_not_alnum_def dmy_def
  datePatterns_def labelled_total_def totalPatterns_def re_time_def storePatterns_def
  re_stars_def re_bullet_def re_prefix_def re_address_def re_phone_def re_tax_id_def
  labelled_number_def paymentWords_def re_paid_def stamp_def labelled_stamp_def labelled_def
  re_signature_counter_def re_payback_def lazy_name_def itemPatterns_def document_total_def
  documentTotalPatterns_def nameClass_def fallbackPatterns_def re_gap_def bold_name_def
  listPatterns_def re_bullet_bold_def re_quantity_i_def re_price_eur_i_def re_price_i_def
  re_weight_i_def re_bold_def re_unit_times_def re_price_letter_def re_quantity_def
  re_price_euro_def

lemmas ev = js_defs re_defs pattern_defs

lemmas engine_defs =
  isItemsSection_def isHeaderOrTotal_def isNotAProduct_def parsePrice_def extractBrand_def
  generateItemCode_def extractDate_def accept_amount_def extractTotal_def extractMetadata_def
  cleanStoreName_def extractStoreInfo_def extractTotals_def extractPaymentInfo_def
  extractCashierInfo_def extractFiscalInfo_def extractLoyaltyInfo_def newItem_def matchedItem_def
  extractItem_def lineItem_def lineFields_def lineStep_def extractPatternData_def potentialStep_def
  extractItemsFallback_def parseEDEKATableRow_def parseTableRow_def parseListItem_def
  detailQuantity_def detailPrice_def parseNewListItem_def push_def itemsPurchased_def itemsList_def
  cells_def stdTable_def plainTable_def cellQuantity_def cellPrice_def cellRow_def barTable_def
  euroPrice_def quantityOf_def priceOf_def quantityLine_def inProducts_def scanStep_def
  extractStructuredData_def emptyReceipt_def fallbackIfEmpty_def parseReceipt_def parseMarkdown_def
  Let_def

section \<open>Properties of the orchestrator\<close>

text \<open>
  C7. When the primary backend is available and its attempt resolves with a result whose
  confidence is at least \<open>minConfidence\<close>, the run returns that result tagged with the
  primary's name and \<open>fallback_used = false\<close>, and the primary is the only backend invoked.
\<close>

theorem primary_success_only_primary_invoked:
  assumes "map_of svcs (primary cfg) = Some b"
    and "b imagePath (timeout cfg) = Resolved (Some r)"
    and "minConfidence cfg \<le> confidence r"
  shows "fst (processImage cfg svcs imagePath) = Inr (tag r (primary cfg) False)
       \<and> service_used (tag r (primary cfg) False) = primary cfg
       \<and> fallback_used (tag r (primary cfg) False) = False
       \<and> calls (snd (processImage cfg svcs imagePath)) = [primary cfg]"
  using assms
  by (simp add: processImage_def tryService_def processWithService_def invoked_def tag_def)

theorem primary_success_only_primary_invoked_witness:
  "fst (processImage default_config
          [(''google'', \<lambda>_ _. Resolved (Some \<lparr>ocr_text = ''EDEKA'', confidence = 9/10\<rparr>)),
           (''tesseract'', \<lambda>_ _. Resolved (Some \<lparr>ocr_text = ''EDEKA'', confidence = 1\<rparr>))] ''r.jpg'')
     = Inr \<lparr>r_text = ''EDEKA'', r_confidence = 9/10, service_used = ''google'', fallback_used = False\<rparr>
   \<and> calls (snd (processImage default_config
          [(''google'', \<lambda>_ _. Resolved (Some \<lparr>ocr_text = ''EDEKA'', confidence = 9/10\<rparr>)),
           (''tesseract'', \<lambda>_ _. Resolved (Some \<lparr>ocr_text = ''EDEKA'', confidence = 1\<rparr>))] ''r.jpg''))
     = [''google'']"
  using primary_success_only_primary_invoked
    [of "[(''google'', \<lambda>_ _. Resolved (Some \<lparr>ocr_text = ''EDEKA'', confidence = 9/10\<rparr>)),
          (''tesseract'', \<lambda>_ _. Resolved (Some \<lparr>ocr_text = ''EDEKA'', confidence = 1\<rparr>))]"
        default_config "\<lambda>_ _. Resolved (Some \<lparr>ocr_text = ''EDEKA'', confidence = 9/10\<rparr>)"
        "''r.jpg''" "\<lparr>ocr_text = ''EDEKA'', confidence = 9/10\<rparr>"]
  by (simp add: default_config_def tag_def)

text \<open>
  C1. With \<open>minConfidence = 0.5\<close>, the primary (google) resolves with confidence 0.4, the
  fallback (tesseract) rejects and azure resolves with confidence 0.2: no attempt reaches
  the threshold and the best candidate is google's. The run returns azure's result: only
  the loop over the additional services updates \<open>bestResult\<close>.
\<close>

theorem low_confidence_primary_not_selected:
  "fst (processImage default_config
          [(''google'', \<lambda>_ _. Resolved (Some \<lparr>ocr_text = ''A'', confidence = 2/5\<rparr>)),
           (''azure'', \<lambda>_ _. Resolved (Some \<lparr>ocr_text = ''B'', confidence = 1/5\<rparr>)),
           (''tesseract'', \<lambda>_ _. Rejected ''no worker'')] ''r.jpg'')
     = Inr \<lparr>r_text = ''B'', r_confidence = 1/5, service_used = ''azure'', fallback_used = True\<rparr>"
  by (simp add: processImage_def tryService_def tryAdditional_def processWithService_def
      invoked_def finish_def tag_def default_config_def)

text \<open>
  C2. With \<open>minConfidence = 0.5\<close>, the primary (google) resolves with confidence 0.4 and
  the fallback (tesseract) rejects; there is no other service. One attempt produced a
  result, and the run still ends in the error "All OCR services failed".
\<close>

theorem low_confidence_primary_run_fails:
  "fst (processImage default_config
          [(''google'', \<lambda>_ _. Resolved (Some \<lparr>ocr_text = ''A'', confidence = 2/5\<rparr>)),
           (''tesseract'', \<lambda>_ _. Rejected ''no worker'')] ''r.jpg'')
     = Inl AllServicesFailed"
  by (simp add: processImage_def tryService_def tryAdditional_def processWithService_def
      invoked_def finish_def tag_def default_config_def)

section \<open>parsePrice\<close>






lemma replace_char_head:
  "replace_char 44 46 (c # cs) = d # ds \<Longrightarrow> d = (if c = 44 then 46 else c)"
  by (simp split: if_splits)






















section \<open>The unit price of every item is derived\<close>

lemma newItem_derived: "derived_price (newItem rnd k n q price lt)"
  by (cases price) (simp_all add: derived_price_def newItem_def truthy_def)

lemma matchedItem_derived: "matchedItem rnd k line m = Some it \<Longrightarrow> derived_price it"
  by (auto simp: matchedItem_def derived_price_def split: option.splits if_splits)

lemma firstItem_derived: "firstItem rnd k line ps = Some it \<Longrightarrow> derived_price it"
  by (induction ps) (auto split: option.splits dest: matchedItem_derived)

lemma extractItem_derived: "extractItem rnd k line = Some it \<Longrightarrow> derived_price it"
  by (auto simp: extractItem_def split: if_splits dest: firstItem_derived)

lemma fallbackItem_derived: "fallbackItem rnd k line ps = Some it \<Longrightarrow> derived_price it"
  by (induction ps) (auto split: option.splits if_splits simp: newItem_derived)

lemma parseEDEKATableRow_derived: "parseEDEKATableRow rnd k line = Some it \<Longrightarrow> derived_price it"
  by (auto simp: parseEDEKATableRow_def Let_def newItem_derived split: if_splits)

lemma parseTableRow_derived: "parseTableRow rnd k columns = Some it \<Longrightarrow> derived_price it"
  by (auto simp: parseTableRow_def newItem_derived split: option.splits if_splits)

lemma firstListItem_derived: "firstListItem rnd k cleanLine ps = Some it \<Longrightarrow> derived_price it"
  by (induction ps) (auto split: option.splits simp: newItem_derived)

lemma parseListItem_derived: "parseListItem rnd k line = Some it \<Longrightarrow> derived_price it"
  by (auto simp: parseListItem_def dest: firstListItem_derived)

lemma parseNewListItem_derived: "parseNewListItem rnd k line following = Some it \<Longrightarrow> derived_price it"
  by (auto simp: parseNewListItem_def newItem_derived split: option.splits)

lemma push_derived:
  assumes "list_all derived_price (found st)" and "\<And>it. x = Some it \<Longrightarrow> derived_price it"
  shows "list_all derived_price (found (push x st))"
  using assms by (cases x) (simp_all add: push_def)

lemma push_newItem_derived:
  "list_all derived_price (found st) \<Longrightarrow>
   list_all derived_price (found (push (Some (newItem rnd k n q price lt)) st))"
  by (rule push_derived) (auto simp: newItem_derived)

lemma itemsPurchased_derived:
  "list_all derived_price (found st) \<Longrightarrow> list_all derived_price (found (itemsPurchased rnd line following st))"
  by (auto simp: itemsPurchased_def intro: push_derived parseNewListItem_derived)

lemma itemsList_derived:
  "list_all derived_price (found st) \<Longrightarrow> list_all derived_price (found (itemsList rnd line following st))"
  by (auto simp: itemsList_def intro!: itemsPurchased_derived intro: push_derived parseListItem_derived)

lemma stdTable_derived:
  "list_all derived_price (found st) \<Longrightarrow> list_all derived_price (found (stdTable rnd line following st))"
  by (auto simp: stdTable_def intro!: itemsList_derived intro: push_derived parseTableRow_derived)

lemma plainTable_derived:
  "list_all derived_price (found st) \<Longrightarrow> list_all derived_price (found (plainTable rnd line following st))"
  by (auto simp: plainTable_def intro!: stdTable_derived intro: push_derived parseEDEKATableRow_derived)

lemma cellRow_derived:
  "list_all derived_price (found st) \<Longrightarrow> list_all derived_price (found (cellRow rnd product parts st))"
  by (cases parts) (simp_all add: cellRow_def push_newItem_derived)

lemma barTable_derived:
  "list_all derived_price (found st) \<Longrightarrow> list_all derived_price (found (barTable rnd line following st))"
  by (simp add: barTable_def plainTable_derived cellRow_derived split: option.splits)

lemma quantityLine_derived:
  "list_all derived_price (found st) \<Longrightarrow>
   list_all derived_price (found (quantityLine numstr rnd product qty price st))"
  by (simp add: quantityLine_def push_newItem_derived)

lemma inProducts_derived:
  "list_all derived_price (found st) \<Longrightarrow>
   list_all derived_price (found (inProducts numstr rnd line following st))"
  by (simp add: inProducts_def barTable_derived quantityLine_derived split: option.splits)

lemma scanStep_derived:
  "list_all derived_price (found st) \<Longrightarrow>
   list_all derived_price (found (scanStep numstr rnd line following st))"
  by (simp add: scanStep_def inProducts_derived)

lemma scanLines_derived:
  "list_all derived_price (found st) \<Longrightarrow> list_all derived_price (found (scanLines numstr rnd ls st))"
  by (induction ls arbitrary: st) (simp_all add: scanStep_derived)

lemma extractStructuredData_derived:
  "list_all derived_price (items r) \<Longrightarrow>
   list_all derived_price (items (extractStructuredData numstr rnd ls r))"
  by (simp add: extractStructuredData_def scanLines_derived)

lemma lineStep_derived:
  "list_all derived_price (items r) \<Longrightarrow> list_all derived_price (items (lineStep rnd line r))"
  by (auto simp: lineStep_def lineItem_def lineFields_def split: option.splits
      dest: extractItem_derived)

lemma extractLineData_derived:
  "list_all derived_price (items r) \<Longrightarrow> list_all derived_price (items (extractLineData rnd ls r))"
  by (induction ls arbitrary: r) (simp_all add: lineStep_derived)

lemma extractPatternData_items: "items (extractPatternData markdown r) = items r"
  by (simp add: extractPatternData_def Let_def split: option.splits)

lemma potentialLoop_derived:
  "list_all derived_price acc \<Longrightarrow> list_all derived_price (potentialLoop rnd ls acc)"
  by (induction ls arbitrary: acc)
     (auto simp: potentialStep_def split: option.splits dest: fallbackItem_derived)

lemma addUnique_derived:
  "list_all derived_price new \<Longrightarrow> list_all derived_price its \<Longrightarrow>
   list_all derived_price (addUnique new seen its)"
  by (induction new arbitrary: seen its) simp_all

lemma fallbackIfEmpty_derived:
  "list_all derived_price (items r) \<Longrightarrow> list_all derived_price (items (fallbackIfEmpty rnd markdown r))"
  by (simp add: fallbackIfEmpty_def extractItemsFallback_def addUnique_derived potentialLoop_derived)

text \<open>
  C10. Every item of the receipt that \<open>parseMarkdown\<close> returns, whatever strategy built
  it, has a derived unit price: when its total price is not \<open>null\<close> the unit price is
  the total price divided by the quantity (the division of JavaScript numbers), and when
  the total price is \<open>null\<close> the unit price is \<open>null\<close>.
\<close>

theorem unit_price_derived_from_total:
  "list_all derived_price (items (receipt (parseMarkdown numstr rnd now markdown)))"
  by (simp add: parseMarkdown_def parseReceipt_def fallbackIfEmpty_derived extractPatternData_items
      extractLineData_derived extractStructuredData_derived emptyReceipt_def)

section \<open>The random draws reach the item codes only\<close>

lemma newItem_same: "anonymous (newItem rnd k n q price lt) = anonymous (newItem rnd' k' n q price lt)"
  by (simp add: anonymous_def newItem_def)

lemma matchedItem_same:
  "map_option anonymous (matchedItem rnd k line m) = map_option anonymous (matchedItem rnd' k' line m)"
  by (simp add: matchedItem_def anonymous_def split: option.splits)

lemma firstItem_same:
  "map_option anonymous (firstItem rnd k line ps) = map_option anonymous (firstItem rnd' k' line ps)"
proof (induction ps)
  case Nil
  show ?case by simp
next
  case (Cons p ps)
  show ?case
  proof (cases "js_match line p")
    case None
    then show ?thesis using Cons.IH by simp
  next
    case (Some m)
    show ?thesis
      using Cons.IH matchedItem_same [of rnd k line m rnd' k']
      by (cases "matchedItem rnd k line m"; cases "matchedItem rnd' k' line m") (simp_all add: Some)
  qed
qed

lemma extractItem_same:
  "map_option anonymous (extractItem rnd k line) = map_option anonymous (extractItem rnd' k' line)"
  by (simp add: extractItem_def firstItem_same)

lemma fallbackItem_same:
  "map_option anonymous (fallbackItem rnd k line ps) = map_option anonymous (fallbackItem rnd' k' line ps)"
  by (induction ps) (simp_all add: newItem_same split: option.splits)

lemma parseEDEKATableRow_same:
  "map_option anonymous (parseEDEKATableRow rnd k line) = map_option anonymous (parseEDEKATableRow rnd' k' line)"
  by (simp add: parseEDEKATableRow_def Let_def newItem_same)

lemma parseTableRow_same:
  "map_option anonymous (parseTableRow rnd k columns) = map_option anonymous (parseTableRow rnd' k' columns)"
  by (simp add: parseTableRow_def newItem_same split: option.splits)

lemma firstListItem_same:
  "map_option anonymous (firstListItem rnd k cleanLine ps) =
   map_option anonymous (firstListItem rnd' k' cleanLine ps)"
  by (induction ps) (simp_all add: newItem_same split: option.splits)

lemma parseListItem_same:
  "map_option anonymous (parseListItem rnd k line) = map_option anonymous (parseListItem rnd' k' line)"
  by (simp add: parseListItem_def firstListItem_same)

lemma parseNewListItem_same:
  "map_option anonymous (parseNewListItem rnd k line following) =
   map_option anonymous (parseNewListItem rnd' k' line following)"
  by (simp add: parseNewListItem_def newItem_same split: option.splits)

lemma same_flags:
  assumes "same_scan st st'"
  shows "inTable st' = inTable st" "inItemsSection st' = inItemsSection st"
    "inItemsPurchased st' = inItemsPurchased st" "inEDEKATable st' = inEDEKATable st"
    "currentProduct st' = currentProduct st" "inProductsSection st' = inProductsSection st"
  using assms by (simp_all add: same_scan_def)

lemma same_update:
  assumes "same_scan st st'"
  shows "same_scan (st\<lparr>inTable := b\<rparr>) (st'\<lparr>inTable := b\<rparr>)"
    "same_scan (st\<lparr>inItemsSection := b\<rparr>) (st'\<lparr>inItemsSection := b\<rparr>)"
    "same_scan (st\<lparr>inItemsPurchased := b\<rparr>) (st'\<lparr>inItemsPurchased := b\<rparr>)"
    "same_scan (st\<lparr>inEDEKATable := b\<rparr>) (st'\<lparr>inEDEKATable := b\<rparr>)"
    "same_scan (st\<lparr>currentProduct := c\<rparr>) (st'\<lparr>currentProduct := c\<rparr>)"
    "same_scan (st\<lparr>inProductsSection := b\<rparr>) (st'\<lparr>inProductsSection := b\<rparr>)"
    "same_scan (st\<lparr>inProductsSection := b, currentProduct := c\<rparr>)
               (st'\<lparr>inProductsSection := b, currentProduct := c\<rparr>)"
  using assms by (simp_all add: same_scan_def)

lemma push_same:
  assumes "same_scan st st'" and "map_option anonymous x = map_option anonymous x'"
  shows "same_scan (push x st) (push x' st')"
  using assms by (cases x; cases x') (simp_all add: push_def same_scan_def)

lemma itemsPurchased_same:
  assumes s: "same_scan st st'"
  shows "same_scan (itemsPurchased rnd line following st) (itemsPurchased rnd' line following st')"
  unfolding itemsPurchased_def same_flags [OF s]
  by (simp add: same_update [OF s] push_same [OF s parseNewListItem_same] s)

lemma itemsList_same:
  assumes s: "same_scan st st'"
  shows "same_scan (itemsList rnd line following st) (itemsList rnd' line following st')"
  unfolding itemsList_def same_flags [OF s]
  by (simp add: same_update [OF s] s itemsPurchased_same push_same [OF s parseListItem_same])

lemma stdTable_same:
  assumes s: "same_scan st st'"
  shows "same_scan (stdTable rnd line following st) (stdTable rnd' line following st')"
  unfolding stdTable_def same_flags [OF s]
  by (simp add: same_update [OF s] s itemsList_same push_same [OF s parseTableRow_same])

lemma plainTable_same:
  assumes s: "same_scan st st'"
  shows "same_scan (plainTable rnd line following st) (plainTable rnd' line following st')"
  unfolding plainTable_def same_flags [OF s]
  by (simp add: same_update [OF s] s stdTable_same push_same [OF s parseEDEKATableRow_same])

lemma push_newItem_same:
  assumes s: "same_scan st st'"
  shows "same_scan (push (Some (newItem rnd k n q price lt)) st) (push (Some (newItem rnd' k' n q price lt)) st')"
  by (rule push_same [OF s]) (simp add: newItem_same)

lemma cellRow_same:
  assumes s: "same_scan st st'"
  shows "same_scan (cellRow rnd product parts st) (cellRow rnd' product parts st')"
proof (cases parts)
  case Nil
  then show ?thesis using s by (simp add: cellRow_def)
next
  case (Cons quantityPrice rest)
  show ?thesis
    unfolding cellRow_def Cons
    by (simp add: same_update [OF s] same_update [OF push_newItem_same [OF s]])
qed

lemma barTable_same:
  assumes s: "same_scan st st'"
  shows "same_scan (barTable rnd line following st) (barTable rnd' line following st')"
  unfolding barTable_def same_flags [OF s]
  by (simp add: same_update [OF s] s plainTable_same cellRow_same split: option.splits)

lemma quantityLine_same:
  assumes s: "same_scan st st'"
  shows "same_scan (quantityLine numstr rnd product qty price st) (quantityLine numstr rnd' product qty price st')"
  unfolding quantityLine_def
  by (simp add: same_update [OF s] same_update [OF push_newItem_same [OF s]])

lemma inProducts_same:
  assumes s: "same_scan st st'"
  shows "same_scan (inProducts numstr rnd line following st) (inProducts numstr rnd' line following st')"
proof (cases "js_match line re_bullet_bold")
  case (Some m)
  then show ?thesis
    unfolding inProducts_def same_flags [OF s]
    by (simp add: same_update [OF s] s barTable_same)
next
  case None
  show ?thesis
  proof (cases "currentProduct st")
    case none: None
    show ?thesis
      unfolding inProducts_def same_flags [OF s] None none
      by (simp add: same_update [OF s] s barTable_same truthy_str_def)
  next
    case (Some product)
    show ?thesis
      unfolding inProducts_def same_flags [OF s] None Some
      by (simp add: same_update [OF s] s barTable_same quantityLine_same)
  qed
qed

lemma scanStep_same:
  assumes s: "same_scan st st'"
  shows "same_scan (scanStep numstr rnd line following st) (scanStep numstr rnd' line following st')"
  unfolding scanStep_def
  by (simp add: same_update [OF s] s inProducts_same)

lemma scanLines_same:
  "same_scan st st' \<Longrightarrow> same_scan (scanLines numstr rnd ls st) (scanLines numstr rnd' ls st')"
  by (induction ls arbitrary: st st') (simp_all add: scanStep_same)

lemma without_codes_eq:
  "without_codes r = without_codes r' \<longleftrightarrow>
     metadata r = metadata r' \<and> store r = store r' \<and> totals r = totals r' \<and> payment r = payment r'
     \<and> cashier_info r = cashier_info r' \<and> fiscal_info r = fiscal_info r' \<and> loyalty r = loyalty r'
     \<and> map anonymous (items r) = map anonymous (items r')"
  by (cases r; cases r') (auto simp: without_codes_def)

lemma extractStructuredData_same:
  assumes "without_codes r = without_codes r'"
  shows "without_codes (extractStructuredData numstr rnd ls r) =
         without_codes (extractStructuredData numstr rnd' ls r')"
proof -
  let ?init = "\<lambda>r. \<lparr>inTable = False, inItemsSection = False, inItemsPurchased = False,
                     inEDEKATable = False, currentProduct = None, inProductsSection = False,
                     found = items r\<rparr>"
  have "same_scan (?init r) (?init r')"
    using assms by (simp add: same_scan_def without_codes_eq)
  then have "same_scan (scanLines numstr rnd ls (?init r)) (scanLines numstr rnd' ls (?init r'))"
    by (rule scanLines_same)
  then have "map anonymous (found (scanLines numstr rnd ls (?init r))) =
             map anonymous (found (scanLines numstr rnd' ls (?init r')))"
    by (simp add: same_scan_def)
  then show ?thesis
    using assms by (simp add: extractStructuredData_def without_codes_eq)
qed

lemma lineStep_same:
  assumes "without_codes r = without_codes r'"
  shows "without_codes (lineStep rnd line r) = without_codes (lineStep rnd' line r')"
proof -
  have f: "metadata r' = metadata r" "store r' = store r" "totals r' = totals r" "payment r' = payment r"
    "cashier_info r' = cashier_info r" "fiscal_info r' = fiscal_info r" "loyalty r' = loyalty r"
    and its: "map anonymous (items r) = map anonymous (items r')"
    using assms by (simp_all add: without_codes_eq)
  from its have len: "length (items r') = length (items r)"
    by (metis length_map)
  show ?thesis
  proof (cases "length (items r) = 0")
    case True
    with len have e: "items r = []" "items r' = []" by simp_all
    show ?thesis
      using extractItem_same [of rnd 0 "trim line" rnd' 0]
      by (cases "extractItem rnd 0 (trim line)"; cases "extractItem rnd' 0 (trim line)")
         (simp_all add: lineStep_def lineItem_def lineFields_def without_codes_eq f e)
  next
    case False
    then show ?thesis
      using its len by (simp add: lineStep_def lineItem_def lineFields_def without_codes_eq f)
  qed
qed

lemma extractLineData_same:
  "without_codes r = without_codes r' \<Longrightarrow>
   without_codes (extractLineData rnd ls r) = without_codes (extractLineData rnd' ls r')"
proof (induction ls arbitrary: r r')
  case Nil
  then show ?case by simp
next
  case (Cons l ls)
  show ?case
    using Cons.IH [OF lineStep_same [OF Cons.prems]] by simp
qed

lemma extractPatternData_same:
  assumes "without_codes r = without_codes r'"
  shows "without_codes (extractPatternData markdown r) = without_codes (extractPatternData markdown r')"
proof -
  have f: "metadata r' = metadata r" "totals r' = totals r"
    using assms by (simp_all add: without_codes_eq)
  show ?thesis
    using assms
    by (simp add: extractPatternData_def Let_def without_codes_eq f split: option.splits)
qed

lemma potentialLoop_same:
  "map anonymous acc = map anonymous acc' \<Longrightarrow>
   map anonymous (potentialLoop rnd ls acc) = map anonymous (potentialLoop rnd' ls acc')"
proof (induction ls arbitrary: acc acc')
  case Nil
  then show ?case by simp
next
  case (Cons l ls)
  have "map anonymous (potentialStep rnd (trim l) acc) = map anonymous (potentialStep rnd' (trim l) acc')"
    using Cons.prems
      fallbackItem_same [of rnd "length acc" "trim l" fallbackPatterns rnd' "length acc'"]
    by (cases "fallbackItem rnd (length acc) (trim l) fallbackPatterns";
        cases "fallbackItem rnd' (length acc') (trim l) fallbackPatterns")
       (simp_all add: potentialStep_def)
  then show ?case
    using Cons.IH by simp
qed

lemma anonymous_name: "product_name (anonymous it) = product_name it"
  by (simp add: anonymous_def)

lemma addUnique_same:
  "map anonymous new = map anonymous new' \<Longrightarrow> map anonymous its = map anonymous its' \<Longrightarrow>
   map anonymous (addUnique new seen its) = map anonymous (addUnique new' seen its')"
proof (induction new arbitrary: new' seen its its')
  case Nil
  then show ?case by simp
next
  case (Cons it rest)
  then obtain it' rest' where n: "new' = it' # rest'" and a: "anonymous it = anonymous it'"
    and r: "map anonymous rest = map anonymous rest'"
    by (cases new') auto
  from a have nm: "product_name it' = product_name it"
    by (metis anonymous_name)
  show ?case
    using Cons.IH [OF r] Cons.prems(2) a by (simp add: n nm)
qed

lemma fallbackIfEmpty_same:
  assumes "without_codes r = without_codes r'"
  shows "without_codes (fallbackIfEmpty rnd markdown r) = without_codes (fallbackIfEmpty rnd' markdown r')"
proof -
  have its: "map anonymous (items r) = map anonymous (items r')"
    using assms by (simp add: without_codes_eq)
  then have len: "length (items r') = length (items r)"
    by (metis length_map)
  have u: "map anonymous (addUnique (potentialLoop rnd (split_on 10 markdown) []) [] (items r)) =
        map anonymous (addUnique (potentialLoop rnd' (split_on 10 markdown) []) [] (items r'))"
    by (rule addUnique_same [OF potentialLoop_same its]) simp
  show ?thesis
  proof (cases "length (items r) = 0")
    case True
    then show ?thesis
      using assms len u by (simp add: fallbackIfEmpty_def extractItemsFallback_def without_codes_eq)
  next
    case False
    then show ?thesis
      using assms len by (simp add: fallbackIfEmpty_def)
  qed
qed

text \<open>
  C8. Two runs of \<open>parseMarkdown\<close> on the same text, with any two sequences of random
  draws and at any two times, return the same receipt but for the item codes, and the
  same \<open>ocr_data\<close>. (The time stamp of \<open>processing_info\<close> is not part of the receipt.)
\<close>

theorem same_receipt_but_item_codes:
  "without_codes (receipt (parseMarkdown numstr rnd now markdown)) =
   without_codes (receipt (parseMarkdown numstr rnd' now' markdown))
   \<and> ocr_data (parseMarkdown numstr rnd now markdown) = ocr_data (parseMarkdown numstr rnd' now' markdown)"
proof
  have "without_codes (parseReceipt numstr rnd markdown) = without_codes (parseReceipt numstr rnd' markdown)"
    unfolding parseReceipt_def
    by (intro fallbackIfEmpty_same extractPatternData_same extractLineData_same
        extractStructuredData_same refl)
  then show "without_codes (receipt (parseMarkdown numstr rnd now markdown)) =
             without_codes (receipt (parseMarkdown numstr rnd' now' markdown))"
    by (simp add: parseMarkdown_def)
  show "ocr_data (parseMarkdown numstr rnd now markdown) = ocr_data (parseMarkdown numstr rnd' now' markdown)"
    by (simp add: parseMarkdown_def)
qed

section \<open>A field that is set keeps its value\<close>

lemma keeps_refl: "keeps r r"
  by (simp add: keeps_def kept_str_def kept_num_def)

lemma keeps_trans: "keeps a b \<Longrightarrow> keeps b c \<Longrightarrow> keeps a c"
  unfolding keeps_def kept_str_def kept_num_def by (elim conjE, intro conjI) simp_all

lemma extractMetadata_kept:
  "kept_str (date m) (date (extractMetadata line m))"
  "kept_str (time m) (time (extractMetadata line m))"
  "receipt_number (extractMetadata line m) = receipt_number m"
  "transaction_id (extractMetadata line m) = transaction_id m"
  by (simp_all add: extractMetadata_def Let_def kept_str_def split: option.splits)

lemma trim_idem: "trim (trim s) = trim s"
proof -
  let ?u = "dropWhile isSpace s"
  let ?w = "dropWhile isSpace (rev ?u)"
  have w: "dropWhile isSpace ?w = ?w" by simp
  have "dropWhile isSpace (rev ?w) = rev ?w"
  proof (cases "rev ?w")
    case Nil
    then have e: "?w = []" by (simp only: rev_is_Nil_conv)
    show ?thesis unfolding e by simp
  next
    case (Cons c cs)
    have "\<exists>zs. rev ?u = zs @ ?w"
      by (metis takeWhile_dropWhile_id)
    then obtain zs where "rev ?u = zs @ ?w" ..
    then have "?u = rev ?w @ rev zs"
      by (metis rev_append rev_rev_ident)
    then have u: "?u = c # cs @ rev zs"
      using Cons by simp
    have "\<not> isSpace (hd ?u)"
      using u by (metis hd_dropWhile list.distinct(1))
    then have "\<not> isSpace c"
      using u by simp
    then show ?thesis
      using Cons by simp
  qed
  then show ?thesis
    by (simp add: trim_def)
qed

lemma storeLoop_kept:
  "address (storeLoop line ps s) = address s" "phone (storeLoop line ps s) = phone s"
  "tax_id (storeLoop line ps s) = tax_id s"
  by (induction line ps s rule: storeLoop.induct) simp_all

lemma storeLoop_nonempty:
  "list_all (\<lambda>p. fst (snd p) \<noteq> []) ps \<Longrightarrow>
   name (storeLoop line ps s) = name s \<and> store_chain (storeLoop line ps s) = store_chain s
   \<or> truthy_str (name (storeLoop line ps s))"
  by (induction line ps s rule: storeLoop.induct) (auto simp: truthy_str_def str_def)

lemma storeLoop_storePatterns:
  "name (storeLoop line storePatterns s) = name s
     \<and> store_chain (storeLoop line storePatterns s) = store_chain s
   \<or> truthy_str (name (storeLoop line storePatterns s))"
  by (rule storeLoop_nonempty) (simp add: storePatterns_def)

lemma extractStoreInfo_fields:
  "name (extractStoreInfo line s) = (if \<not> truthy_str (name s) then name (storeLoop line storePatterns s) else name s)"
  "store_chain (extractStoreInfo line s) =
     (if \<not> truthy_str (name s) then store_chain (storeLoop line storePatterns s) else store_chain s)"
  by (simp_all add: extractStoreInfo_def Let_def split: option.splits)

lemma extractStoreInfo_kept:
  assumes "truthy_str (store_chain s) \<longrightarrow> truthy_str (name s)"
  shows "kept_str (name s) (name (extractStoreInfo line s))"
    "kept_str (address s) (address (extractStoreInfo line s))"
    "kept_str (phone s) (phone (extractStoreInfo line s))"
    "kept_str (tax_id s) (tax_id (extractStoreInfo line s))"
    "kept_str (store_chain s) (store_chain (extractStoreInfo line s))"
    "truthy_str (store_chain (extractStoreInfo line s)) \<longrightarrow> truthy_str (name (extractStoreInfo line s))"
proof -
  show "kept_str (name s) (name (extractStoreInfo line s))"
    by (simp add: extractStoreInfo_fields kept_str_def)
  show "kept_str (address s) (address (extractStoreInfo line s))"
    by (simp add: extractStoreInfo_def Let_def kept_str_def storeLoop_kept split: option.splits)
  show "kept_str (phone s) (phone (extractStoreInfo line s))"
    by (simp add: extractStoreInfo_def Let_def kept_str_def storeLoop_kept split: option.splits)
  show "kept_str (tax_id s) (tax_id (extractStoreInfo line s))"
    by (simp add: extractStoreInfo_def Let_def kept_str_def storeLoop_kept split: option.splits)
  show "kept_str (store_chain s) (store_chain (extractStoreInfo line s))"
    using assms by (auto simp: extractStoreInfo_fields kept_str_def)
  show "truthy_str (store_chain (extractStoreInfo line s)) \<longrightarrow> truthy_str (name (extractStoreInfo line s))"
    using assms storeLoop_storePatterns [of line s] by (auto simp: extractStoreInfo_fields)
qed

lemma extractTotals_kept:
  "kept_num (subtotal t) (subtotal (extractTotals line t))"
  "kept_num (vat_amount t) (vat_amount (extractTotals line t))"
  "vat_rate (extractTotals line t) = vat_rate t"
  "kept_num (total_amount t) (total_amount (extractTotals line t))"
  "currency (extractTotals line t) = currency t"
  by (simp_all add: extractTotals_def Let_def kept_num_def split: option.splits)

lemma extractPaymentInfo_kept:
  assumes "truthy_str (card_type p) \<longrightarrow> truthy_str (pay_method p)" and "trim line \<noteq> []"
  shows "kept_str (pay_method p) (pay_method (extractPaymentInfo line p))"
    "kept_num (amount_paid p) (amount_paid (extractPaymentInfo line p))"
    "change (extractPaymentInfo line p) = change p"
    "kept_str (card_type p) (card_type (extractPaymentInfo line p))"
    "card_number (extractPaymentInfo line p) = card_number p"
    "truthy_str (card_type (extractPaymentInfo line p)) \<longrightarrow> truthy_str (pay_method (extractPaymentInfo line p))"
  using assms
  by (auto simp: extractPaymentInfo_def Let_def kept_str_def kept_num_def truthy_str_def
      split: option.splits)

lemma extractCashierInfo_kept:
  "kept_str (start_time c) (start_time (extractCashierInfo line c))"
  "kept_str (end_time c) (end_time (extractCashierInfo line c))"
  "kept_str (cashier_number c) (cashier_number (extractCashierInfo line c))"
  "kept_str (terminal_number c) (terminal_number (extractCashierInfo line c))"
  by (simp_all add: extractCashierInfo_def Let_def kept_str_def split: option.splits)

lemma extractFiscalInfo_kept:
  "kept_str (tse_signature f) (tse_signature (extractFiscalInfo line f))"
  "kept_str (signature_counter f) (signature_counter (extractFiscalInfo line f))"
  "kept_str (signature f) (signature (extractFiscalInfo line f))"
  "signature_data (extractFiscalInfo line f) = signature_data f"
  "fiscal_data (extractFiscalInfo line f) = fiscal_data f"
  by (simp_all add: extractFiscalInfo_def Let_def kept_str_def split: option.splits)

lemma extractLoyaltyInfo_kept:
  assumes "program l = None \<or> program l = Some (str ''PAYBACK'')"
  shows "kept_str (program l) (program (extractLoyaltyInfo line l))"
    "kept_num (points_earned l) (points_earned (extractLoyaltyInfo line l))"
    "points_balance (extractLoyaltyInfo line l) = points_balance l"
    "program (extractLoyaltyInfo line l) = None \<or> program (extractLoyaltyInfo line l) = Some (str ''PAYBACK'')"
  using assms
  by (auto simp: extractLoyaltyInfo_def kept_str_def kept_num_def truthy_str_def split: option.splits)

lemma kept_same: "kept_str a a" "kept_num b b"
  by (simp_all add: kept_str_def kept_num_def)

lemma lineItem_fields:
  "metadata (lineItem rnd line r) = metadata r" "store (lineItem rnd line r) = store r"
  "totals (lineItem rnd line r) = totals r" "payment (lineItem rnd line r) = payment r"
  "cashier_info (lineItem rnd line r) = cashier_info r" "fiscal_info (lineItem rnd line r) = fiscal_info r"
  "loyalty (lineItem rnd line r) = loyalty r"
  by (simp_all add: lineItem_def split: option.splits)

lemma lineStep_kept:
  assumes "paired r"
  shows "keeps r (lineStep rnd line r)" and "paired (lineStep rnd line r)"
proof -
  from assms have p: "truthy_str (card_type (payment r)) \<longrightarrow> truthy_str (pay_method (payment r))"
    and s: "truthy_str (store_chain (store r)) \<longrightarrow> truthy_str (name (store r))"
    and l: "program (loyalty r) = None \<or> program (loyalty r) = Some (str ''PAYBACK'')"
    by (simp_all add: paired_def)
  show "keeps r (lineStep rnd line r)"
  proof (cases "trim line = []")
    case True
    then show ?thesis by (simp add: lineStep_def keeps_refl)
  next
    case False
    then have t: "trim (trim line) \<noteq> []" by (simp add: trim_idem)
    from False show ?thesis
      unfolding keeps_def
      by (simp add: lineStep_def lineItem_fields lineFields_def extractMetadata_kept
          extractStoreInfo_kept [OF s] extractTotals_kept extractPaymentInfo_kept [OF p t]
          extractCashierInfo_kept extractFiscalInfo_kept extractLoyaltyInfo_kept [OF l] kept_same)
  qed
  show "paired (lineStep rnd line r)"
  proof (cases "trim line = []")
    case True
    then show ?thesis using assms by (simp add: lineStep_def)
  next
    case False
    then have t: "trim (trim line) \<noteq> []" by (simp add: trim_idem)
    from False show ?thesis
      unfolding paired_def
      using extractStoreInfo_kept(6) [OF s] extractPaymentInfo_kept(6) [OF p t] extractLoyaltyInfo_kept(4) [OF l]
      by (simp add: lineStep_def lineItem_fields lineFields_def)
  qed
qed

lemma extractLineData_kept:
  "paired r \<Longrightarrow> keeps r (extractLineData rnd ls r) \<and> paired (extractLineData rnd ls r)"
proof (induction ls arbitrary: r)
  case Nil
  then show ?case by (simp add: keeps_refl)
next
  case (Cons l ls)
  from Cons.prems have 1: "keeps r (lineStep rnd l r)" and 2: "paired (lineStep rnd l r)"
    by (rule lineStep_kept)+
  from Cons.IH [OF 2] 1 show ?case
    by (auto intro: keeps_trans)
qed

lemma extractLineData_append:
  "extractLineData rnd (xs @ ys) r = extractLineData rnd ys (extractLineData rnd xs r)"
  by (induction xs arbitrary: r) simp_all

lemma extractPatternData_kept: "keeps r (extractPatternData markdown r)"
  by (simp add: extractPatternData_def Let_def keeps_def kept_str_def kept_num_def split: option.splits)

lemma fallbackIfEmpty_kept: "keeps r (fallbackIfEmpty rnd markdown r)"
  by (simp add: fallbackIfEmpty_def extractItemsFallback_def keeps_def kept_str_def kept_num_def)

lemma extractStructuredData_paired: "paired (extractStructuredData numstr rnd ls emptyReceipt)"
  by (simp add: extractStructuredData_def paired_def emptyReceipt_def truthy_str_def)

lemma prefix_kept:
  "keeps (extractLineData rnd (take k (split_on 10 markdown))
            (extractStructuredData numstr rnd (split_on 10 markdown) emptyReceipt))
         (parseReceipt numstr rnd markdown)"
proof -
  let ?ls = "split_on 10 markdown"
  let ?r0 = "extractStructuredData numstr rnd ?ls emptyReceipt"
  let ?rk = "extractLineData rnd (take k ?ls) ?r0"
  have pk: "paired ?rk"
    using extractLineData_kept [OF extractStructuredData_paired] by blast
  have "extractLineData rnd ?ls ?r0 = extractLineData rnd (drop k ?ls) ?rk"
    using extractLineData_append [of rnd "take k ?ls" "drop k ?ls" ?r0] by simp
  then have "keeps ?rk (extractLineData rnd ?ls ?r0)"
    using extractLineData_kept [OF pk, of rnd "drop k ?ls"] by simp
  then show ?thesis
    unfolding parseReceipt_def
    by (blast intro: keeps_trans extractPatternData_kept fallbackIfEmpty_kept)
qed

section \<open>The totals of a receipt\<close>

lemma totals_lineStep:
  "totals (lineStep rnd l r) = (if trim l = [] then totals r else extractTotals (trim l) (totals r))"
  by (simp add: lineStep_def lineItem_fields lineFields_def)

lemma totals_extractLineData: "totals (extractLineData rnd ls r) = totalsPass ls (totals r)"
  by (induction ls arbitrary: r) (simp_all add: totals_lineStep)

lemma totals_extractStructuredData: "totals (extractStructuredData numstr rnd ls r) = totals r"
  by (simp add: extractStructuredData_def)

lemma totals_fallbackIfEmpty: "totals (fallbackIfEmpty rnd markdown r) = totals r"
  by (simp add: fallbackIfEmpty_def extractItemsFallback_def)

lemma totals_extractPatternData:
  "totals (extractPatternData markdown r) =
     (if \<not> truthy (total_amount (totals r))
      then (case first_amount markdown documentTotalPatterns of
              Some amt \<Rightarrow> (totals r)\<lparr>total_amount := Some amt\<rparr>
            | None \<Rightarrow> totals r)
      else totals r)"
  by (simp add: extractPatternData_def Let_def split: option.splits)

lemma totals_parseReceipt:
  "totals (parseReceipt numstr rnd markdown) =
     (if \<not> truthy (total_amount (totalsPass (split_on 10 markdown) (totals emptyReceipt)))
      then (case first_amount markdown documentTotalPatterns of
              Some amt \<Rightarrow> (totalsPass (split_on 10 markdown) (totals emptyReceipt))\<lparr>total_amount := Some amt\<rparr>
            | None \<Rightarrow> totalsPass (split_on 10 markdown) (totals emptyReceipt))
      else totalsPass (split_on 10 markdown) (totals emptyReceipt))"
  by (simp add: parseReceipt_def totals_fallbackIfEmpty totals_extractPatternData
      totals_extractLineData totals_extractStructuredData split: option.splits)

lemma totals_prefix:
  "totals (extractLineData rnd (take k (split_on 10 markdown))
             (extractStructuredData numstr rnd (split_on 10 markdown) emptyReceipt)) =
   totalsPass (take k (split_on 10 markdown)) (totals emptyReceipt)"
  by (simp add: totals_extractLineData totals_extractStructuredData)

lemma vat_amount_parseReceipt:
  "vat_amount (totals (parseReceipt numstr rnd markdown)) =
   vat_amount (totalsPass (split_on 10 markdown) (totals emptyReceipt))"
  by (simp add: totals_parseReceipt split: option.splits)

text \<open>The two lines \<open>MwSt 0\<close> and \<open>MwSt 1,50\<close>.\<close>

lemma vat_lines:
  "split_on 10 (str ''MwSt 0'' @ [10] @ str ''MwSt 1,50'') = [str ''MwSt 0'', str ''MwSt 1,50'']"
  by (simp add: str_def)

lemma vat_first_line:
  "vat_amount (extractTotals (trim (str ''MwSt 0'')) (totals emptyReceipt)) = Some (Num 0)"
  by (simp add: ev engine_defs)

lemma vat_second_line:
  "vat_amount (extractTotals (trim (str ''MwSt 1,50'')) t) =
     (if truthy (vat_amount t) then vat_amount t else Some (Num (3 / 2)))"
  by (simp add: ev engine_defs extractTotals_def)

text \<open>
  C6, as the code has it. After the structured scan and any number \<open>k\<close> of lines of the
  line pass (all of them when \<open>k\<close> is at least their number), every scalar field that
  holds a truthy value (a string that is not empty, a number other than 0 and NaN) has
  that same value in the receipt that is returned: no later line and no later strategy
  changes it. A field holding \<open>null\<close> or the number 0 counts as empty.
\<close>

theorem truthy_field_never_overwritten:
  "keeps (extractLineData rnd (take k (split_on 10 markdown))
            (extractStructuredData numstr rnd (split_on 10 markdown) emptyReceipt))
         (parseReceipt numstr rnd markdown)"
  by (rule prefix_kept)

text \<open>
  The witness: in the text of the two lines \<open>Total 5\<close> and \<open>Total 7\<close> the total
  amount is 5 after the first line, a truthy value, and the receipt returned has it.
\<close>

lemma total_lines:
  "split_on 10 (str ''Total 5'' @ [10] @ str ''Total 7'') = [str ''Total 5'', str ''Total 7'']"
  by (simp add: str_def)

lemma total_first_line:
  "total_amount (extractTotals (trim (str ''Total 5'')) (totals emptyReceipt)) = Some (Num 5)"
  by (simp add: ev engine_defs)

theorem truthy_field_never_overwritten_witness:
  "truthy (total_amount (totals (extractLineData (\<lambda>_. []) (take 1 (split_on 10 (str ''Total 5'' @ [10] @ str ''Total 7'')))
             (extractStructuredData (\<lambda>_. []) (\<lambda>_. []) (split_on 10 (str ''Total 5'' @ [10] @ str ''Total 7'')) emptyReceipt))))
   \<and> total_amount (totals (parseReceipt (\<lambda>_. []) (\<lambda>_. []) (str ''Total 5'' @ [10] @ str ''Total 7''))) = Some (Num 5)"
proof -
  let ?md = "str ''Total 5'' @ [10] @ str ''Total 7''"
  have a: "total_amount (totals (extractLineData (\<lambda>_. []) (take 1 (split_on 10 ?md))
             (extractStructuredData (\<lambda>_. []) (\<lambda>_. []) (split_on 10 ?md) emptyReceipt))) = Some (Num 5)"
  proof -
    have p: "totals (extractLineData (\<lambda>_. []) (take 1 (split_on 10 ?md))
               (extractStructuredData (\<lambda>_. []) (\<lambda>_. []) (split_on 10 ?md) emptyReceipt)) =
             totalsPass (take 1 (split_on 10 ?md)) (totals emptyReceipt)"
      by (rule totals_prefix)
    have q: "totalsPass (take 1 (split_on 10 ?md)) (totals emptyReceipt) =
             extractTotals (trim (str ''Total 5'')) (totals emptyReceipt)"
      unfolding total_lines by (simp add: trim_def str_def isSpace_def)
    show ?thesis
      unfolding p q by (rule total_first_line)
  qed
  have "keeps (extractLineData (\<lambda>_. []) (take 1 (split_on 10 ?md))
             (extractStructuredData (\<lambda>_. []) (\<lambda>_. []) (split_on 10 ?md) emptyReceipt))
          (parseReceipt (\<lambda>_. []) (\<lambda>_. []) ?md)"
    by (rule truthy_field_never_overwritten)
  then have "kept_num (Some (Num 5)) (total_amount (totals (parseReceipt (\<lambda>_. []) (\<lambda>_. []) ?md)))"
    unfolding keeps_def a by (elim conjE)
  then show ?thesis
    unfolding a by (simp add: kept_num_def truthy_def truthy_num_def)
qed

text \<open>
  The counterexample to the claim as stated: in the text of the two lines \<open>MwSt 0\<close> and
  \<open>MwSt 1,50\<close> the first line sets the VAT amount to 0 and the second line sets it
  again, to 1.5.
\<close>

theorem zero_field_overwritten:
  "vat_amount (totals (extractLineData (\<lambda>_. []) (take 1 (split_on 10 (str ''MwSt 0'' @ [10] @ str ''MwSt 1,50'')))
       (extractStructuredData (\<lambda>_. []) (\<lambda>_. []) (split_on 10 (str ''MwSt 0'' @ [10] @ str ''MwSt 1,50'')) emptyReceipt)))
     = Some (Num 0)
   \<and> vat_amount (totals (parseReceipt (\<lambda>_. []) (\<lambda>_. []) (str ''MwSt 0'' @ [10] @ str ''MwSt 1,50'')))
     = Some (Num (3 / 2))"
proof -
  have t: "trim (str ''MwSt 0'') \<noteq> []" "trim (str ''MwSt 1,50'') \<noteq> []"
    by (simp_all add: trim_def str_def isSpace_def)
  let ?md = "str ''MwSt 0'' @ [10] @ str ''MwSt 1,50''"
  have "vat_amount (totalsPass (take 1 (split_on 10 ?md)) (totals emptyReceipt)) = Some (Num 0)"
    unfolding vat_lines using t vat_first_line by simp
  moreover have "vat_amount (totalsPass (split_on 10 ?md) (totals emptyReceipt)) = Some (Num (3 / 2))"
    unfolding vat_lines using t vat_first_line by (simp add: vat_second_line truthy_def truthy_num_def)
  ultimately show ?thesis
    by (simp only: totals_prefix vat_amount_parseReceipt)
qed

section \<open>The total amount and the currency\<close>

lemma first_amount_accepted: "first_amount s ps = Some a \<Longrightarrow> accept_amount (Some a)"
  by (induction ps) (auto split: option.splits if_splits)

lemma extractTotal_truthy: "extractTotal l = Some a \<Longrightarrow> truthy (Some a)"
  using first_amount_accepted [of l totalPatterns a]
  by (simp add: extractTotal_def accept_amount_def truthy_def)

lemma total_extractTotals:
  "total_amount (extractTotals l t) =
     (if truthy (total_amount t) then total_amount t
      else if truthy (extractTotal l) then extractTotal l else total_amount t)"
  by (simp add: extractTotals_def Let_def split: option.splits)

lemma currency_totalsPass: "currency (totalsPass ls t) = currency t"
  by (induction ls arbitrary: t) (simp_all add: extractTotals_kept)

lemma totalsPass_append: "totalsPass (xs @ ys) t = totalsPass ys (totalsPass xs t)"
  by (induction xs arbitrary: t) simp_all

lemma totalsPass_none:
  "\<not> truthy (total_amount t) \<Longrightarrow> \<forall>x\<in>set pre. trim x = [] \<or> extractTotal (trim x) = None \<Longrightarrow>
   total_amount (totalsPass pre t) = total_amount t"
  by (induction pre arbitrary: t) (auto simp: total_extractTotals truthy_def)

lemma totalsPass_kept:
  "truthy (total_amount t) \<Longrightarrow> total_amount (totalsPass ls t) = total_amount t"
  by (induction ls arbitrary: t) (simp_all add: total_extractTotals)

lemma currency_parseReceipt: "currency (totals (parseReceipt numstr rnd markdown)) = str ''EUR''"
  by (simp add: totals_parseReceipt currency_totalsPass emptyReceipt_def split: option.splits)

lemma first_total_line:
  assumes "split_on 10 markdown = pre @ l # post"
    and "\<forall>x\<in>set pre. trim x = [] \<or> extractTotal (trim x) = None"
    and "trim l \<noteq> []" and "extractTotal (trim l) = Some a"
  shows "total_amount (totals (parseReceipt numstr rnd markdown)) = Some a"
proof -
  let ?t0 = "totals emptyReceipt"
  have e: "\<not> truthy (total_amount ?t0)"
    by (simp add: emptyReceipt_def truthy_def)
  have 1: "total_amount (totalsPass pre ?t0) = total_amount ?t0"
    by (rule totalsPass_none [OF e assms(2)])
  have 2: "total_amount (totalsPass (pre @ [l]) ?t0) = Some a"
    using e 1 assms(3,4) extractTotal_truthy [OF assms(4)]
    by (simp add: totalsPass_append total_extractTotals)
  have "total_amount (totalsPass (split_on 10 markdown) ?t0) = Some a"
    using totalsPass_kept [of "totalsPass (pre @ [l]) ?t0" post] 2 extractTotal_truthy [OF assms(4)]
      totalsPass_append [of "pre @ [l]" post ?t0]
    by (simp add: assms(1))
  then show ?thesis
    using extractTotal_truthy [OF assms(4)] by (simp add: totals_parseReceipt)
qed

text \<open>The lines \<open>SUMME 13,95\<close> and \<open>SUMME EUR 13,95\<close>.\<close>

lemma summe_line: "extractTotal (str ''SUMME 13,95'') = Some (double_of (279 / 20))"
  by (simp add: ev engine_defs num_defs floor_quotient)

lemma summe_eur_line: "extractTotal (str ''SUMME EUR 13,95'') = None"
  by (simp add: ev engine_defs)

lemma summe_eur_trimmed: "trim (str ''SUMME EUR 13,95'') = str ''SUMME EUR 13,95''"
  by (simp add: trim_def str_def isSpace_def)

lemma summe_eur_document: "first_amount (str ''SUMME EUR 13,95'') documentTotalPatterns = None"
  by (simp add: ev engine_defs)

lemma summe_eur_alone:
  "total_amount (totals (parseReceipt numstr rnd (str ''SUMME EUR 13,95''))) = None"
proof -
  have s: "split_on 10 (str ''SUMME EUR 13,95'') = [str ''SUMME EUR 13,95'']"
    by (simp add: str_def)
  have t: "total_amount (totalsPass [str ''SUMME EUR 13,95''] (totals emptyReceipt)) = None"
    using summe_eur_line
    by (simp add: total_extractTotals summe_eur_trimmed) (simp add: emptyReceipt_def truthy_def)
  show ?thesis
    unfolding totals_parseReceipt s using t by (simp add: truthy_def summe_eur_document)
qed

text \<open>
  C4. For the text that is the line \<open>SUMME EUR 13,95\<close> alone the claim gives the total
  amount 13.95 and the currency \<open>EUR\<close>. The engine returns the currency \<open>EUR\<close> and the
  total amount \<open>null\<close>: between the label and the number the patterns of
  \<open>extractTotal\<close> allow colons, white space and a Euro sign, not the word \<open>EUR\<close>, so that the
  line gives no amount, while the line \<open>SUMME 13,95\<close> gives 13.95; and the patterns for
  the whole text find no amount either.
\<close>

theorem summe_eur_line_has_no_total:
  "currency (totals (receipt (parseMarkdown numstr rnd now (str ''SUMME EUR 13,95'')))) = str ''EUR''
   \<and> total_amount (totals (receipt (parseMarkdown numstr rnd now (str ''SUMME EUR 13,95'')))) = None
   \<and> extractTotal (str ''SUMME EUR 13,95'') = None
   \<and> extractTotal (str ''SUMME 13,95'') = Some (double_of (279 / 20))"
  by (simp add: parseMarkdown_def currency_parseReceipt summe_eur_alone summe_eur_line summe_line)

section \<open>The items of the line pass\<close>

lemma items_lineStep:
  "items (lineStep rnd l r) =
     (if trim l = [] then items r
      else if items r = [] then (case extractItem rnd 0 (trim l) of Some it \<Rightarrow> [it] | None \<Rightarrow> [])
      else items r)"
  by (simp add: lineStep_def lineItem_def lineFields_def split: option.splits)

lemma items_line_kept: "items r \<noteq> [] \<Longrightarrow> items (extractLineData rnd ls r) = items r"
  by (induction ls arbitrary: r) (simp_all add: items_lineStep)

lemma items_line_none:
  "items r = [] \<Longrightarrow> \<forall>x\<in>set pre. trim x = [] \<or> extractItem rnd 0 (trim x) = None \<Longrightarrow>
   items (extractLineData rnd pre r) = []"
  by (induction pre arbitrary: r) (auto simp: items_lineStep)

lemma first_item_line:
  assumes "items r = []" and "\<forall>x\<in>set pre. trim x = [] \<or> extractItem rnd 0 (trim x) = None"
    and "trim l \<noteq> []" and "extractItem rnd 0 (trim l) = Some it"
  shows "items (extractLineData rnd (pre @ l # post) r) = [it]"
proof -
  have "items (extractLineData rnd pre r) = []"
    by (rule items_line_none [OF assms(1,2)])
  then have "items (lineStep rnd l (extractLineData rnd pre r)) = [it]"
    using assms(3,4) by (simp add: items_lineStep)
  then show ?thesis
    using items_line_kept [of "lineStep rnd l (extractLineData rnd pre r)" rnd post]
    by (simp add: extractLineData_append)
qed

lemma items_parseReceipt:
  assumes "items (extractLineData rnd (split_on 10 markdown)
             (extractStructuredData numstr rnd (split_on 10 markdown) emptyReceipt)) = it # its"
  shows "items (parseReceipt numstr rnd markdown) = it # its"
  using assms by (simp add: parseReceipt_def fallbackIfEmpty_def extractPatternData_items)

text \<open>What \<open>extractItem\<close> reads from the line: the third pattern, name and amount before a Euro sign.\<close>

lemma gouda_trimmed: "trim gouda = gouda"
  by (simp add: gouda_def ev)

lemma gouda_item:
  "extractItem rnd 0 gouda =
     Some \<lparr>product_name = str ''G&G Gouda'', quantity = Num 1,
           unit_price = Some (double_of (199 / 100)), total_price = Some (double_of (199 / 100)),
           category = None, brand = None,
           item_code = str ''GGGOUDA'' @ rnd 0, line_text = gouda, matched = False\<rparr>"
  by (simp add: gouda_def ev engine_defs num_defs floor_quotient)

lemma gouda_scan:
  "items (extractStructuredData numstr rnd [gouda] emptyReceipt) = []"
  by (simp add: gouda_def ev engine_defs)

lemma gouda_split: "split_on 10 gouda = [gouda]"
  by (simp add: gouda_def ev)

lemma gouda_alone:
  "items (parseReceipt numstr rnd gouda) =
     [\<lparr>product_name = str ''G&G Gouda'', quantity = Num 1,
       unit_price = Some (double_of (199 / 100)), total_price = Some (double_of (199 / 100)),
       category = None, brand = None,
       item_code = str ''GGGOUDA'' @ rnd 0, line_text = gouda, matched = False\<rparr>]"
proof -
  have s: "split_on 10 gouda = [] @ gouda # []"
    by (simp add: gouda_split)
  have e: "items (extractStructuredData numstr rnd ([] @ gouda # []) emptyReceipt) = []"
    using gouda_scan by simp
  have n: "trim gouda \<noteq> []"
    unfolding gouda_trimmed by (simp add: gouda_def)
  have i: "extractItem rnd 0 (trim gouda) = Some \<lparr>product_name = str ''G&G Gouda'', quantity = Num 1,
       unit_price = Some (double_of (199 / 100)), total_price = Some (double_of (199 / 100)),
       category = None, brand = None,
       item_code = str ''GGGOUDA'' @ rnd 0, line_text = gouda, matched = False\<rparr>"
    unfolding gouda_trimmed by (rule gouda_item)
  have p: "\<forall>x\<in>set []. trim x = [] \<or> extractItem rnd 0 (trim x) = None"
    by simp
  show ?thesis
    by (rule items_parseReceipt) (simp only: s first_item_line [OF e p n i])
qed

text \<open>The same product in the cells of a table: the row of the price is read with the quantity 2.\<close>

lemma gouda_rows_quantity:
  "map quantity (items (extractStructuredData numstr rnd gouda_rows emptyReceipt)) = [Num 2]"
  by (simp add: gouda_rows_def ev engine_defs num_defs floor_quotient)

lemma price_apart: "double_of (199 / 100) \<noteq> double_of (199 / 50)"
  by (simp add: num_defs floor_quotient)

text \<open>
  C3. For the text that is the line \<open>G&G Gouda 1,99 \<euro> x 2 3,98 \<euro>\<close> alone the claim
  gives one item with the quantity 2, the unit price 1.99 and the total price 3.98. The
  engine returns one item with the name \<open>G&G Gouda\<close>, the quantity 1, the unit price
  1.99 and the total price 1.99: no pattern of \<open>extractItem\<close> has the form of a price,
  \<open>x\<close>, a quantity and a total; the third pattern reads the name and the first amount
  before a Euro sign, the quantity is \<open>parseInt\<close> of that amount, and the rest of the
  line, \<open>x 2 3,98 \<euro>\<close>, is not read. The structured scan of the same engine reads the
  cell \<open>1,99 \<euro> x 2\<close> of a table with the quantity 2.
\<close>

theorem gouda_line_read_with_quantity_one:
  "items (receipt (parseMarkdown numstr rnd now gouda)) =
     [\<lparr>product_name = str ''G&G Gouda'', quantity = Num 1,
       unit_price = Some (double_of (199 / 100)), total_price = Some (double_of (199 / 100)),
       category = None, brand = None,
       item_code = str ''GGGOUDA'' @ rnd 0, line_text = gouda, matched = False\<rparr>]
   \<and> map quantity (items (receipt (parseMarkdown numstr rnd now gouda))) \<noteq> [Num 2]
   \<and> map total_price (items (receipt (parseMarkdown numstr rnd now gouda))) \<noteq> [Some (double_of (199 / 50))]
   \<and> map quantity (items (extractStructuredData numstr rnd gouda_rows emptyReceipt)) = [Num 2]"
  by (simp add: parseMarkdown_def gouda_alone gouda_rows_quantity price_apart)

section \<open>The line pass stops at its first item\<close>

lemma line_pass_at_most_one:
  "items r = [] \<Longrightarrow> length (items (extractLineData rnd ls r)) \<le> 1"
proof (induction ls arbitrary: r)
  case Nil
  then show ?case by simp
next
  case (Cons l ls)
  show ?case
  proof (cases "items (lineStep rnd l r) = []")
    case True
    then show ?thesis using Cons.IH by simp
  next
    case False
    then have "length (items (lineStep rnd l r)) \<le> 1"
      using Cons.prems by (simp add: items_lineStep split: if_splits option.splits)
    then show ?thesis
      using items_line_kept [OF False, of rnd ls] by simp
  qed
qed

lemma mock_lines: "split_on 10 mock_head = [str ''# Receipt'', []] @ milk_line # [bread_line]"
  by (simp add: mock_head_def milk_line_def bread_line_def ev)

lemma mock_scan:
  "items (extractStructuredData numstr rnd [str ''# Receipt'', [], milk_line, bread_line] emptyReceipt) = []"
  by (simp add: milk_line_def bread_line_def ev engine_defs)

lemma heading_no_item: "extractItem rnd 0 (trim (str ''# Receipt'')) = None"
  by (simp add: ev engine_defs)

lemma milk_item:
  "extractItem rnd 0 (trim milk_line) =
     Some \<lparr>product_name = str ''Vollmilch 3.5%'', quantity = Num 2, unit_price = Some (Num (7 / 4)),
           total_price = Some (Num (7 / 2)), category = None, brand = Some (str ''Vollmilch''),
           item_code = str ''VOLLMILC'' @ rnd 0, line_text = milk_line, matched = False\<rparr>"
  by (simp add: milk_line_def ev engine_defs)

lemma bread_item:
  "extractItem rnd 0 (trim bread_line) =
     Some \<lparr>product_name = str ''Vollkornbrot'', quantity = Num 1,
           unit_price = Some (double_of (14 / 5)), total_price = Some (double_of (14 / 5)),
           category = None, brand = None,
           item_code = str ''VOLLKORN'' @ rnd 0, line_text = bread_line, matched = False\<rparr>"
  by (simp add: bread_line_def ev engine_defs num_defs floor_quotient)

text \<open>
  C5. On the first lines of the mock receipt the structured scan finds no item, and
  both item lines match an item pattern: \<open>extractItem\<close> reads the item
  \<open>Vollkornbrot\<close> from the second one. The receipt has the item of the first item line
  only: the test \<open>items.length === 0\<close> is made again for each line, so the line pass
  stops at its first item.
\<close>

theorem line_pass_emits_first_item_only:
  "items (extractStructuredData (\<lambda>_. []) (\<lambda>_. []) (split_on 10 mock_head) emptyReceipt) = []
   \<and> map_option product_name (extractItem (\<lambda>_. []) 0 (trim bread_line)) = Some (str ''Vollkornbrot'')
   \<and> map product_name (items (parseReceipt (\<lambda>_. []) (\<lambda>_. []) mock_head)) = [str ''Vollmilch 3.5%'']"
proof -
  have e: "items (extractStructuredData (\<lambda>_. []) (\<lambda>_. []) (split_on 10 mock_head) emptyReceipt) = []"
    unfolding mock_lines using mock_scan [of "\<lambda>_. []" "\<lambda>_. []"] by simp
  have n: "trim milk_line \<noteq> []"
    by (simp add: milk_line_def ev)
  have p: "\<forall>x\<in>set [str ''# Receipt'', []]. trim x = [] \<or> extractItem (\<lambda>_. []) 0 (trim x) = None"
    using heading_no_item [of "\<lambda>_. []"] by (simp add: trim_def)
  have "items (extractLineData (\<lambda>_. []) (split_on 10 mock_head)
          (extractStructuredData (\<lambda>_. []) (\<lambda>_. []) (split_on 10 mock_head) emptyReceipt)) =
        [\<lparr>product_name = str ''Vollmilch 3.5%'', quantity = Num 2, unit_price = Some (Num (7 / 4)),
          total_price = Some (Num (7 / 2)), category = None, brand = Some (str ''Vollmilch''),
          item_code = str ''VOLLMILC'' @ [], line_text = milk_line, matched = False\<rparr>]"
    using first_item_line [OF e p n milk_item, of "[bread_line]"] by (simp only: mock_lines)
  then have "items (parseReceipt (\<lambda>_. []) (\<lambda>_. []) mock_head) =
        [\<lparr>product_name = str ''Vollmilch 3.5%'', quantity = Num 2, unit_price = Some (Num (7 / 4)),
          total_price = Some (Num (7 / 2)), category = None, brand = Some (str ''Vollmilch''),
          item_code = str ''VOLLMILC'' @ [], line_text = milk_line, matched = False\<rparr>]"
    by (rule items_parseReceipt)
  then show ?thesis
    using e bread_item [of "\<lambda>_. []"] by simp
qed

end
